theory Spec2Isabelle
  imports Complex_Main
begin

section \<open>Python strings\<close>

text \<open>
  A Python \<open>str\<close> is modelled as a \<open>string\<close>, one \<open>char\<close> per code point; the
  model therefore covers the code points below 256. No property proved below depends on
  which characters a string holds.
\<close>

text \<open>\<open>sep.join(parts)\<close>\<close>

fun join :: "string \<Rightarrow> string list \<Rightarrow> string" where
  "join sep [] = []"
| "join sep [x] = x"
| "join sep (x # y # ys) = x @ sep @ join sep (y # ys)"

text \<open>\<open>str.isspace\<close> on one character: the white space of Unicode below code point 256.\<close>

definition isspace :: "char \<Rightarrow> bool" where
  "isspace c \<longleftrightarrow> c \<in> set [CHR 0x09, CHR 0x0A, CHR 0x0B, CHR 0x0C, CHR 0x0D,
                            CHR 0x1C, CHR 0x1D, CHR 0x1E, CHR 0x1F, CHR 0x20,
                            CHR 0x85, CHR 0xA0]"

text \<open>\<open>s.strip()\<close>\<close>

definition strip :: "string \<Rightarrow> string" where
  "strip s = rev (dropWhile isspace (rev (dropWhile isspace s)))"

text \<open>\<open>sub in s\<close> on strings: \<open>sub\<close> occurs in \<open>s\<close> as a contiguous piece.\<close>

fun contains :: "string \<Rightarrow> string \<Rightarrow> bool" where
  "contains sub [] = (sub = [])"
| "contains sub (c # s) = (take (length sub) (c # s) = sub \<or> contains sub s)"

text \<open>
  \<open>s.lower()\<close>, on the letters A to Z. The source applies it to the output of
  \<open>json.dumps\<close> only, which is ASCII text.
\<close>

definition lower_char :: "char \<Rightarrow> char" where
  "lower_char c =
     (case map_of (zip ''ABCDEFGHIJKLMNOPQRSTUVWXYZ'' ''abcdefghijklmnopqrstuvwxyz'') c of
        Some d \<Rightarrow> d
      | None \<Rightarrow> c)"

definition lower :: "string \<Rightarrow> string" where
  "lower s = map lower_char s"

text \<open>\<open>str(n)\<close> for an integer: decimal digits, with a minus sign when negative.\<close>

definition digit_char :: "nat \<Rightarrow> char" where
  "digit_char d = ''0123456789abcdef'' ! d"

fun str_nat :: "nat \<Rightarrow> string" where
  "str_nat n = (if n < 10 then [digit_char n] else str_nat (n div 10) @ [digit_char (n mod 10)])"

declare str_nat.simps [simp del]

definition str_int :: "int \<Rightarrow> string" where
  "str_int i = (if i < 0 then CHR ''-'' # str_nat (nat (- i)) else str_nat (nat i))"

section \<open>JSON values\<close>

text \<open>
  What \<open>json.loads\<close> returns. A number is an \<open>int\<close> or a \<open>float\<close>; a float is a
  rational (every finite double is one) or one of the three special values, which
  Python's parser accepts as \<open>Infinity\<close>, \<open>-Infinity\<close> and \<open>NaN\<close>. An object is a
  \<open>dict\<close> in insertion order, as an association list; the parser keeps one entry per
  key, and \<open>map_of\<close> is the lookup.
\<close>

datatype pyfloat = Finite rat | PosInf | NegInf | NaN

datatype json =
    JNull
  | JBool bool
  | JInt int
  | JFloat pyfloat
  | JString string
  | JArray "json list"
  | JObject "(string \<times> json) list"

text \<open>
  \<open>json.dumps(data)\<close> with the default settings: separators \<open>", "\<close> and \<open>": "\<close>,
  and \<open>ensure_ascii\<close>, which escapes every character outside the range from space to
  tilde. The decimal text of a finite float (\<open>float.__repr__\<close>) is a parameter \<open>fr\<close>.
\<close>

definition escape_char :: "char \<Rightarrow> string" where
  "escape_char c =
     (if c = CHR ''\"'' then [CHR 0x5C, CHR ''\"'']
      else if c = CHR 0x5C then [CHR 0x5C, CHR 0x5C]
      else if c = CHR 0x0A then [CHR 0x5C, CHR ''n'']
      else if c = CHR 0x0D then [CHR 0x5C, CHR ''r'']
      else if c = CHR 0x09 then [CHR 0x5C, CHR ''t'']
      else if c = CHR 0x0C then [CHR 0x5C, CHR ''f'']
      else if c = CHR 0x08 then [CHR 0x5C, CHR ''b'']
      else if (32::nat) \<le> of_char c \<and> (of_char c :: nat) \<le> 126 then [c]
      else [CHR 0x5C, CHR ''u'', CHR ''0'', CHR ''0'',
            digit_char (of_char c div 16), digit_char (of_char c mod 16)])"

definition encode_string :: "string \<Rightarrow> string" where
  "encode_string s = [CHR ''\"''] @ concat (map escape_char s) @ [CHR ''\"'']"

fun json_dumps :: "(rat \<Rightarrow> string) \<Rightarrow> json \<Rightarrow> string" where
  "json_dumps fr JNull = ''null''"
| "json_dumps fr (JBool b) = (if b then ''true'' else ''false'')"
| "json_dumps fr (JInt i) = str_int i"
| "json_dumps fr (JFloat f) =
     (case f of Finite r \<Rightarrow> fr r | PosInf \<Rightarrow> ''Infinity'' | NegInf \<Rightarrow> ''-Infinity''
      | NaN \<Rightarrow> ''NaN'')"
| "json_dumps fr (JString s) = encode_string s"
| "json_dumps fr (JArray xs) = ''['' @ join '', '' (map (json_dumps fr) xs) @ '']''"
| "json_dumps fr (JObject kvs) =
     ''{'' @ join '', '' (map (\<lambda>kv. encode_string (fst kv) @ '': '' @ json_dumps fr (snd kv)) kvs)
       @ ''}''"

section \<open>The payload validator\<close>

record validation =
  is_valid :: bool
  errors :: "string list"
  warnings :: "string list"
  found_fields :: "string list"

text \<open>
  \<open>isinstance(temp, (int, float))\<close>. In Python \<open>bool\<close> is a subclass of \<open>int\<close>, so
  the test holds of \<open>True\<close> and \<open>False\<close> too.
\<close>

fun isinstance_int_float :: "json \<Rightarrow> bool" where
  "isinstance_int_float (JBool b) = True"
| "isinstance_int_float (JInt i) = True"
| "isinstance_int_float (JFloat f) = True"
| "isinstance_int_float _ = False"

text \<open>
  \<open>temp < k\<close> and \<open>temp > k\<close> for a value that passed the test above and an integer
  \<open>k\<close>: \<open>True\<close> counts as 1 and \<open>False\<close> as 0, Python compares an \<open>int\<close> with a
  \<open>float\<close> exactly, and every comparison with NaN is false.
\<close>

fun num_less :: "json \<Rightarrow> int \<Rightarrow> bool" where
  "num_less (JBool b) k = ((if b then 1 else 0) < k)"
| "num_less (JInt i) k = (i < k)"
| "num_less (JFloat (Finite r)) k = (r < of_int k)"
| "num_less (JFloat NegInf) k = True"
| "num_less _ k = False"

fun num_greater :: "json \<Rightarrow> int \<Rightarrow> bool" where
  "num_greater (JBool b) k = ((if b then 1 else 0) > k)"
| "num_greater (JInt i) k = (i > k)"
| "num_greater (JFloat (Finite r)) k = (r > of_int k)"
| "num_greater (JFloat PosInf) k = True"
| "num_greater _ k = False"

text \<open>\<open>str(temp)\<close> inside the f-string of the warning.\<close>

fun str_num :: "(rat \<Rightarrow> string) \<Rightarrow> json \<Rightarrow> string" where
  "str_num fr (JBool b) = (if b then ''True'' else ''False'')"
| "str_num fr (JInt i) = str_int i"
| "str_num fr (JFloat (Finite r)) = fr r"
| "str_num fr (JFloat PosInf) = ''inf''"
| "str_num fr (JFloat NegInf) = ''-inf''"
| "str_num fr (JFloat NaN) = ''nan''"
| "str_num fr _ = []"

text \<open>\<open>not isinstance(x, str) or len(x.strip()) == 0\<close>\<close>

fun empty_or_invalid :: "json \<Rightarrow> bool" where
  "empty_or_invalid (JString s) = (length (strip s) = 0)"
| "empty_or_invalid _ = True"

definition required_fields :: "string list" where
  "required_fields = [''city'', ''temperature'', ''description'']"

text \<open>
  \<open>validate_weather_response(self, data, city, test_type)\<close>. The f-string of the
  warning holds the degree sign, code point \<open>0xB0\<close>.
\<close>

definition validate_weather_response ::
    "(rat \<Rightarrow> string) \<Rightarrow> json \<Rightarrow> string \<Rightarrow> string \<Rightarrow> validation" where
  "validate_weather_response fr data city test_type =
     (case data of
        JObject kvs \<Rightarrow>
          (let validation0 = \<lparr>is_valid = True, errors = [], warnings = [],
                               found_fields = map fst kvs\<rparr>;
               missing_fields = filter (\<lambda>field. map_of kvs field = None) required_fields;
               validation1 =
                 (if missing_fields \<noteq> [] then
                    validation0\<lparr>errors := errors validation0 @
                                  [''Missing required fields: '' @ join '', '' missing_fields],
                                is_valid := False\<rparr>
                  else validation0);
               validation2 =
                 (case map_of kvs ''temperature'' of
                    None \<Rightarrow> validation1
                  | Some temp \<Rightarrow>
                      if \<not> isinstance_int_float temp then
                        validation1\<lparr>errors := errors validation1 @ [''Temperature is not numeric''],
                                    is_valid := False\<rparr>
                      else if num_less temp (- 100) \<or> num_greater temp 70 then
                        validation1\<lparr>warnings := warnings validation1 @
                          [''Temperature '' @ str_num fr temp @ [CHR 0xB0] @ ''C seems extreme'']\<rparr>
                      else validation1);
               validation3 =
                 (case map_of kvs ''description'' of
                    None \<Rightarrow> validation2
                  | Some desc \<Rightarrow>
                      if empty_or_invalid desc then
                        validation2\<lparr>errors := errors validation2 @
                                      [''Weather description is empty or invalid''],
                                    is_valid := False\<rparr>
                      else validation2);
               validation4 =
                 (case map_of kvs ''city'' of
                    None \<Rightarrow> validation3
                  | Some returned_city \<Rightarrow>
                      if empty_or_invalid returned_city then
                        validation3\<lparr>errors := errors validation3 @ [''City name is empty or invalid''],
                                    is_valid := False\<rparr>
                      else validation3)
           in validation4)
      | _ \<Rightarrow>
          \<lparr>is_valid = False, errors = [''Response is not a JSON object''], warnings = [],
           found_fields = []\<rparr>)"


section \<open>The environment: HTTP client and clock\<close>

text \<open>
  An exception raised by the HTTP client or by \<open>response.json()\<close>, with its message
  (\<open>str(e)\<close>). \<open>Timeout\<close> and \<open>ConnectionError\<close> are the classes of
  \<open>requests.exceptions\<close>, \<open>JSONDecodeError\<close> is \<open>json.JSONDecodeError\<close>, and
  \<open>OtherException\<close> is any other subclass of \<open>Exception\<close>.
\<close>

datatype exn =
    Timeout string
  | ConnectionError string
  | JSONDecodeError string
  | OtherException string

fun str_exn :: "exn \<Rightarrow> string" where
  "str_exn (Timeout m) = m"
| "str_exn (ConnectionError m) = m"
| "str_exn (JSONDecodeError m) = m"
| "str_exn (OtherException m) = m"

text \<open>
  A \<open>requests.Response\<close>: \<open>json\<close> is what the call \<open>response.json()\<close> does, the
  parsed body or the exception it raises.
\<close>

record response =
  status_code :: int
  body_text :: string
  json :: "exn + json"

text \<open>
  One interaction with the outside world: a GET with its URL, its timeout and its outcome,
  a reading of \<open>time.time()\<close>, or a reading of \<open>datetime.now().isoformat()\<close>.
  The history of a run is the list of its interactions, oldest first.
\<close>

datatype event =
    Get string nat "exn + response"
  | Time rat
  | Now string

text \<open>
  The environment answers each interaction as a function of the history so far, which
  covers every deterministic behaviour of the server, the network and the clock.
  \<open>float_repr\<close> is Python's decimal text of a finite float.
\<close>

record sys =
  session_get :: "event list \<Rightarrow> string \<Rightarrow> nat \<Rightarrow> exn + response"
  time_time :: "event list \<Rightarrow> rat"
  datetime_now :: "event list \<Rightarrow> string"
  float_repr :: "rat \<Rightarrow> string"

text \<open>\<open>self.session.get(url, timeout=t)\<close>, recorded in the history.\<close>

definition http_get ::
    "sys \<Rightarrow> string \<Rightarrow> nat \<Rightarrow> event list \<Rightarrow> (exn + response) \<times> event list" where
  "http_get sys url timeout tr =
     (let outcome = session_get sys tr url timeout in (outcome, tr @ [Get url timeout outcome]))"

definition read_clock :: "sys \<Rightarrow> event list \<Rightarrow> rat \<times> event list" where
  "read_clock sys tr = (let t = time_time sys tr in (t, tr @ [Time t]))"

definition read_now :: "sys \<Rightarrow> event list \<Rightarrow> string \<times> event list" where
  "read_now sys tr = (let s = datetime_now sys tr in (s, tr @ [Now s]))"

section \<open>Floating-point arithmetic\<close>

text \<open>
  A Python \<open>float\<close> is an IEEE 754 double. A finite double is the rational it denotes;
  the two zeros are one value. \<open>time.time()\<close> returns a finite double, so a reading
  of the clock is a rational.
\<close>

text \<open>\<open>int.bit_length\<close> of a natural number.\<close>

fun bit_length :: "nat \<Rightarrow> nat" where
  "bit_length n = (if n = 0 then 0 else Suc (bit_length (n div 2)))"

declare bit_length.simps [simp del]

text \<open>The power of two with an integer exponent.\<close>

definition pow2 :: "int \<Rightarrow> rat" where
  "pow2 e = (if 0 \<le> e then 2 ^ nat e else 1 / 2 ^ nat (- e))"

text \<open>The binary exponent of a positive rational: the \<open>e\<close> with \<open>2^e \<le> x < 2^(e+1)\<close>.\<close>

definition floor_log2 :: "rat \<Rightarrow> int" where
  "floor_log2 x =
     (if 1 \<le> x then int (bit_length (nat \<lfloor>x\<rfloor>)) - 1
      else - int (bit_length (nat (\<lceil>1 / x\<rceil> - 1))))"

text \<open>The nearest integer, a tie going to the even one.\<close>

definition round_half_even :: "rat \<Rightarrow> int" where
  "round_half_even y =
     (let f = \<lfloor>y\<rfloor>; d = y - of_int f
      in if d < 1 / 2 then f else if 1 / 2 < d then f + 1
         else if even f then f else f + 1)"

text \<open>
  The rounding of IEEE 754 in the default mode, to the nearest double with a tie going to
  the even significand: a double has a significand of 53 bits, its exponent is at least
  \<open>-1022\<close> (below that the doubles are the multiples of \<open>2^-1074\<close>), and a result of
  \<open>2^1024\<close> or more is an infinity.
\<close>

definition to_double :: "rat \<Rightarrow> pyfloat" where
  "to_double x =
     (if x = 0 then Finite 0
      else
        let e = max (floor_log2 \<bar>x\<bar>) (- 1022);
            ulp = pow2 (e - 52);
            y = of_int (round_half_even (\<bar>x\<bar> / ulp)) * ulp
        in if pow2 1024 \<le> y then (if 0 < x then PosInf else NegInf)
           else Finite (if 0 < x then y else - y))"

text \<open>\<open>a - b\<close> on two finite floats: the exact difference, rounded.\<close>

definition float_sub :: "rat \<Rightarrow> rat \<Rightarrow> pyfloat" where
  "float_sub a b = to_double (a - b)"

text \<open>\<open>x * y\<close> on floats: the exact product, rounded.\<close>

fun float_mul :: "pyfloat \<Rightarrow> pyfloat \<Rightarrow> pyfloat" where
  "float_mul (Finite a) (Finite b) = to_double (a * b)"
| "float_mul NaN y = NaN"
| "float_mul x NaN = NaN"
| "float_mul (Finite a) PosInf = (if a = 0 then NaN else if 0 < a then PosInf else NegInf)"
| "float_mul (Finite a) NegInf = (if a = 0 then NaN else if 0 < a then NegInf else PosInf)"
| "float_mul PosInf (Finite b) = (if b = 0 then NaN else if 0 < b then PosInf else NegInf)"
| "float_mul NegInf (Finite b) = (if b = 0 then NaN else if 0 < b then NegInf else PosInf)"
| "float_mul PosInf PosInf = PosInf"
| "float_mul PosInf NegInf = NegInf"
| "float_mul NegInf PosInf = NegInf"
| "float_mul NegInf NegInf = PosInf"

text \<open>
  \<open>round(x, 2)\<close> on a float. CPython rounds the exact value of a finite \<open>x\<close> to the
  nearest multiple of 1/100, a tie going to the even one (\<open>round2\<close>), and returns
  the double nearest to that decimal; an infinity and NaN round to themselves.
\<close>

definition round2 :: "rat \<Rightarrow> rat" where
  "round2 x = of_int (round_half_even (x * 100)) / 100"

fun float_round2 :: "pyfloat \<Rightarrow> pyfloat" where
  "float_round2 (Finite x) = to_double (round2 x)"
| "float_round2 x = x"

section \<open>The endpoint prober\<close>

text \<open>
  The first loop of \<open>check_for_weather_endpoints\<close>, over the health and info
  endpoints. The \<open>except:\<close> clause swallows every exception of the request and of
  \<open>response.json()\<close>.
\<close>

fun probe_described :: "sys \<Rightarrow> string list \<Rightarrow> event list \<Rightarrow> bool \<times> event list" where
  "probe_described sys [] tr = (False, tr)"
| "probe_described sys (endpoint # rest) tr =
     (case http_get sys endpoint 5 tr of
        (Inl e, tr1) \<Rightarrow> probe_described sys rest tr1
      | (Inr response, tr1) \<Rightarrow>
          if response.status_code response = 200 then
            (case json response of
               Inl e \<Rightarrow> probe_described sys rest tr1
             | Inr data \<Rightarrow>
                 let response_text = lower (json_dumps (float_repr sys) data)
                 in if contains ''weather'' response_text \<and> contains ''endpoint'' response_text
                    then (True, tr1)
                    else probe_described sys rest tr1)
          else probe_described sys rest tr1)"

text \<open>The second loop, over the two guessed weather endpoints.\<close>

fun probe_routed :: "sys \<Rightarrow> string list \<Rightarrow> event list \<Rightarrow> bool \<times> event list" where
  "probe_routed sys [] tr = (False, tr)"
| "probe_routed sys (endpoint # rest) tr =
     (case http_get sys endpoint 5 tr of
        (Inl e, tr1) \<Rightarrow> probe_routed sys rest tr1
      | (Inr response, tr1) \<Rightarrow>
          if response.status_code response \<in> set [200, 400, 404] then (True, tr1)
          else probe_routed sys rest tr1)"

definition check_for_weather_endpoints ::
    "sys \<Rightarrow> string \<Rightarrow> event list \<Rightarrow> bool \<times> event list" where
  "check_for_weather_endpoints sys api_base_url tr =
     (let test_endpoints =
            [api_base_url @ ''/api/health'',
             api_base_url @ ''/api/info'',
             api_base_url @ ''/weather?city=test'',
             api_base_url @ ''/api/weather/test''];
          (described, tr1) = probe_described sys (take 2 test_endpoints) tr
      in if described then (True, tr1)
         else probe_routed sys (drop 2 test_endpoints) tr1)"

section \<open>Test results\<close>

text \<open>
  The dictionary under the key \<open>validation_results\<close>: empty, the validator's report, or
  the three-entry dictionary of a mock result (\<open>is_valid\<close>, \<open>errors\<close>, \<open>note\<close>).
\<close>

datatype validation_results =
    Empty_dict
  | Report validation
  | Mock_report bool "string list" string

text \<open>\<open>validation_results["is_valid"]\<close>, where the key is present.\<close>

fun results_is_valid :: "validation_results \<Rightarrow> bool option" where
  "results_is_valid Empty_dict = None"
| "results_is_valid (Report v) = Some (is_valid v)"
| "results_is_valid (Mock_report b es n) = Some b"

text \<open>
  The result dictionary. The keys \<open>city\<close> and \<open>test_type\<close> are the fields
  \<open>result_city\<close> and \<open>result_test_type\<close>, the other fields carry the name of their key.
\<close>

record test_result =
  timestamp :: string
  result_city :: string
  result_test_type :: string
  passed :: bool
  api_endpoint :: "string option"
  status_code :: "int option"
  response_time_ms :: pyfloat
  response_data :: "json option"
  errors :: "string list"
  validation_results :: validation_results

definition valid_cities :: "string list" where
  "valid_cities =
     [''London'', ''New York'', ''Tokyo'', ''Paris'', ''Berlin'', ''Sydney'', ''Mumbai'', ''Cairo'',
      ''Moscow'', ''Beijing'', ''Rome'', ''Madrid'', ''Toronto'', ''Bangkok'', ''Seoul'', ''Dubai'',
      ''Singapore'', ''Amsterdam'', ''Stockholm'', ''Vienna'', ''Prague'', ''Budapest'', ''Warsaw'',
      ''Helsinki'', ''Oslo'', ''Copenhagen'', ''Zurich'', ''Brussels'', ''Lisbon'', ''Athens'',
      ''Istanbul'', ''Delhi'', ''Bangalore'', ''Chennai'', ''Los Angeles'', ''Chicago'', ''Houston'',
      ''Phoenix'', ''Philadelphia'', ''San Antonio'', ''San Diego'', ''Dallas'', ''San Jose'',
      ''Austin'', ''Jacksonville'', ''Fort Worth'', ''Columbus'', ''Charlotte'', ''Seattle'', ''Denver'']"

section \<open>The mock result synthesizer\<close>

text \<open>
  \<open>create_mock_test_result(self, city, test_type, start_time)\<close>. Each of the three
  branches reads \<open>datetime.now()\<close> once while it builds its dictionary, and nothing else
  of the environment, so the reading is taken before the branches.
\<close>

definition create_mock_test_result ::
    "sys \<Rightarrow> string \<Rightarrow> string \<Rightarrow> string \<Rightarrow> rat \<Rightarrow> event list \<Rightarrow> test_result \<times> event list" where
  "create_mock_test_result sys api_base_url city test_type start_time tr =
     (let (t, tr1) = read_clock sys tr;
          response_time = float_mul (float_sub t start_time) (Finite 1000);
          (now, tr2) = read_now sys tr1
      in if test_type = ''invalid'' \<and> strip city \<in> set ['''', ''   '', ''XYZ123NotReal'', ''123456'']
         then
           (\<lparr>timestamp = now, result_city = city, result_test_type = test_type,
             passed = True,
             api_endpoint = Some (api_base_url @ ''/weather?city='' @ city),
             status_code = Some 404,
             response_time_ms = float_round2 response_time,
             response_data = None,
             errors = [''No weather API endpoints found - this is expected for invalid inputs''],
             validation_results = Mock_report True [] ''No API to validate''\<rparr>, tr2)
         else if test_type = ''valid'' \<and> city \<in> set valid_cities then
           (\<lparr>timestamp = now, result_city = city, result_test_type = test_type,
             passed = False,
             api_endpoint = Some (api_base_url @ ''/weather?city='' @ city),
             status_code = Some 404,
             response_time_ms = float_round2 response_time,
             response_data = None,
             errors = [''No weather API endpoints found - add weather routes to your Flask app''],
             validation_results = Mock_report False [''No API endpoint''] ''Frontend-only app''\<rparr>,
            tr2)
         else
           (\<lparr>timestamp = now, result_city = city, result_test_type = test_type,
             passed = False,
             api_endpoint = Some (api_base_url @ ''/weather?city='' @ city),
             status_code = Some 404,
             response_time_ms = float_round2 response_time,
             response_data = None,
             errors = [''Target app has no weather API - only serves frontend files''],
             validation_results =
               Mock_report False [''No backend API''] ''Need to add weather endpoints''\<rparr>, tr2))"

section \<open>The test dispatcher\<close>

text \<open>
  The three \<open>except\<close> clauses of the loop, in the order of the source: a
  \<open>Timeout\<close>, a \<open>ConnectionError\<close>, and any other \<open>Exception\<close>. Each is followed
  by \<open>break\<close>.
\<close>

fun handle_exception :: "exn \<Rightarrow> test_result \<Rightarrow> test_result" where
  "handle_exception (Timeout m) result =
     result\<lparr>errors := errors result @ [''Request timeout (>10 seconds)''],
            status_code := Some 408\<rparr>"
| "handle_exception (ConnectionError m) result =
     result\<lparr>errors := errors result @ [''Connection error - API might be down''],
            status_code := Some 0\<rparr>"
| "handle_exception e result =
     result\<lparr>errors := errors result @ [''Unexpected error: '' @ str_exn e],
            status_code := Some 500\<rparr>"

text \<open>
  The loop \<open>for endpoint in possible_endpoints\<close> of \<open>test_api_endpoint\<close>. A
  \<open>break\<close> returns the result, \<open>continue\<close> is the recursive call.
\<close>

fun try_endpoints ::
    "sys \<Rightarrow> rat \<Rightarrow> string \<Rightarrow> string \<Rightarrow> string list \<Rightarrow> test_result \<Rightarrow> event list
      \<Rightarrow> test_result \<times> event list" where
  "try_endpoints sys start_time city test_type [] result tr = (result, tr)"
| "try_endpoints sys start_time city test_type (endpoint # rest) result tr =
     (case http_get sys endpoint 10 tr of
        (Inl e, tr1) \<Rightarrow> (handle_exception e result, tr1)
      | (Inr response, tr1) \<Rightarrow>
          (case read_clock sys tr1 of
             (t, tr2) \<Rightarrow>
               let response_time = float_mul (float_sub t start_time) (Finite 1000);
                   result1 = result\<lparr>api_endpoint := Some endpoint,
                                    status_code := Some (response.status_code response),
                                    response_time_ms := float_round2 response_time\<rparr>
               in if response.status_code response = 200 then
                    (case json response of
                       Inr data \<Rightarrow>
                         let validation =
                               validate_weather_response (float_repr sys) data city test_type
                         in (result1\<lparr>response_data := Some data,
                                     validation_results := Report validation,
                                     passed := is_valid validation,
                                     errors := validation.errors validation\<rparr>, tr2)
                     | Inl (JSONDecodeError m) \<Rightarrow>
                         (result1\<lparr>errors := errors result1 @ [''Response is not valid JSON'']\<rparr>,
                          tr2)
                     | Inl e \<Rightarrow> (handle_exception e result1, tr2))
                  else if response.status_code response \<in> set [404, 400, 422]
                          \<and> test_type = ''invalid'' then
                    (result1\<lparr>passed := True,
                             errors := errors result1 @
                               [''Correctly returned error '' @ str_int (response.status_code response)
                                  @ '' for invalid input'']\<rparr>, tr2)
                  else if response.status_code response = 404 then
                    try_endpoints sys start_time city test_type rest result1 tr2
                  else
                    (result1\<lparr>errors := errors result1 @
                               [''HTTP '' @ str_int (response.status_code response) @ '': ''
                                  @ take 100 (body_text response)]\<rparr>, tr2)))"

text \<open>\<open>test_api_endpoint(self, city, test_type)\<close>\<close>

definition test_api_endpoint ::
    "sys \<Rightarrow> string \<Rightarrow> string \<Rightarrow> string \<Rightarrow> event list \<Rightarrow> test_result \<times> event list" where
  "test_api_endpoint sys api_base_url city test_type tr =
     (let (start_time, tr1) = read_clock sys tr;
          possible_endpoints =
            [api_base_url @ ''/api/weather/'' @ city,
             api_base_url @ ''/weather?city='' @ city,
             api_base_url @ ''/api/weather?city='' @ city,
             api_base_url @ ''/weather/'' @ city];
          (now, tr2) = read_now sys tr1;
          result = \<lparr>timestamp = now, result_city = city, result_test_type = test_type,
                    passed = False, api_endpoint = None, status_code = None,
                    response_time_ms = Finite 0, response_data = None, errors = [],
                    validation_results = Empty_dict\<rparr>;
          (api_has_endpoints, tr3) = check_for_weather_endpoints sys api_base_url tr2
      in if \<not> api_has_endpoints then
           create_mock_test_result sys api_base_url city test_type start_time tr3
         else
           (let (result', tr4) =
                  try_endpoints sys start_time city test_type possible_endpoints result tr3
            in if api_endpoint result' = None then
                 (result'\<lparr>errors := errors result' @ [''No valid API endpoint found'']\<rparr>, tr4)
               else (result', tr4)))"


section \<open>Notions used in the statements\<close>

text \<open>
  The errors of the three field checks of the validator, in the order the checks run.
\<close>

definition field_errors :: "(string \<times> json) list \<Rightarrow> string list" where
  "field_errors kvs =
     (case map_of kvs ''temperature'' of
        None \<Rightarrow> []
      | Some temp \<Rightarrow>
          if \<not> isinstance_int_float temp then [''Temperature is not numeric''] else []) @
     (case map_of kvs ''description'' of
        None \<Rightarrow> []
      | Some desc \<Rightarrow>
          if empty_or_invalid desc then [''Weather description is empty or invalid''] else []) @
     (case map_of kvs ''city'' of
        None \<Rightarrow> []
      | Some returned_city \<Rightarrow>
          if empty_or_invalid returned_city then [''City name is empty or invalid''] else [])"

text \<open>
  What the prober counts as evidence of a weather API: an answer of a self-describing
  endpoint with status 200 and a JSON body whose lower-cased serialization mentions both
  words, or an answer of a guessed endpoint with status 200, 400 or 404.
\<close>

definition describes_weather :: "sys \<Rightarrow> exn + response \<Rightarrow> bool" where
  "describes_weather sys outcome =
     (case outcome of
        Inl e \<Rightarrow> False
      | Inr response \<Rightarrow>
          response.status_code response = 200 \<and>
          (case json response of
             Inl e \<Rightarrow> False
           | Inr data \<Rightarrow>
               contains ''weather'' (lower (json_dumps (float_repr sys) data)) \<and>
               contains ''endpoint'' (lower (json_dumps (float_repr sys) data))))"

definition route_answer :: "exn + response \<Rightarrow> bool" where
  "route_answer outcome =
     (case outcome of
        Inl e \<Rightarrow> False
      | Inr response \<Rightarrow> response.status_code response \<in> {200, 400, 404})"

fun evidence :: "sys \<Rightarrow> string \<Rightarrow> event \<Rightarrow> bool" where
  "evidence sys base (Get url timeout outcome) =
     ((url = base @ ''/api/health'' \<or> url = base @ ''/api/info'') \<and> describes_weather sys outcome
      \<or> (url = base @ ''/weather?city=test'' \<or> url = base @ ''/api/weather/test'') \<and>
         route_answer outcome)"
| "evidence sys base ev = False"

text \<open>
  The requests of the dispatcher are the ones sent with a timeout of 10; the prober sends
  its requests with a timeout of 5.
\<close>

fun dispatch_get :: "event \<Rightarrow> bool" where
  "dispatch_get (Get url timeout outcome) = (timeout = 10)"
| "dispatch_get ev = False"

text \<open>The readings of \<open>time.time()\<close> in a history, oldest first.\<close>

fun clock_readings :: "event list \<Rightarrow> rat list" where
  "clock_readings [] = []"
| "clock_readings (Time t # evs) = t # clock_readings evs"
| "clock_readings (ev # evs) = clock_readings evs"




text \<open>
  Concrete environments for the examples: a server given by its answer to each URL, a
  clock that advances by one second with every interaction, and a fixed date.
\<close>

definition demo_float_repr :: "rat \<Rightarrow> string" where
  "demo_float_repr r = ''0.0''"

definition demo_clock :: "event list \<Rightarrow> rat" where
  "demo_clock tr = of_nat (length tr)"

definition demo_now :: "event list \<Rightarrow> string" where
  "demo_now tr = ''2024-01-01T00:00:00''"

definition demo_get :: "(string \<Rightarrow> exn + response) \<Rightarrow> event list \<Rightarrow> string \<Rightarrow> nat \<Rightarrow> exn + response" where
  "demo_get server tr url timeout = server url"

definition demo_sys :: "(string \<Rightarrow> exn + response) \<Rightarrow> sys" where
  "demo_sys server =
     \<lparr>session_get = demo_get server, time_time = demo_clock, datetime_now = demo_now,
      float_repr = demo_float_repr\<rparr>"

definition describing :: response where
  "describing =
     \<lparr>response.status_code = 200, body_text = ''ok'',
      json = Inr (JObject [(''endpoints'', JString ''/weather'')])\<rparr>"

definition not_found :: response where
  "not_found =
     \<lparr>response.status_code = 404, body_text = ''Not Found'',
      json = Inl (JSONDecodeError ''Expecting value'')\<rparr>"

text \<open>An answer with status 200 whose body \<open>response.json()\<close> fails to decode.\<close>

definition unreadable :: response where
  "unreadable =
     \<lparr>response.status_code = 200, body_text = ''<html>'',
      json = Inl (OtherException ''boom'')\<rparr>"

text \<open>
  A server whose health endpoint describes a weather API and that answers every other
  URL with \<open>other\<close>, and a server that refuses every connection.
\<close>

definition demo_server :: "exn + response \<Rightarrow> string \<Rightarrow> exn + response" where
  "demo_server other url = (if url = ''http://t/api/health'' then Inr describing else other)"

definition refusing :: "string \<Rightarrow> exn + response" where
  "refusing url = Inl (ConnectionError ''refused'')"

section \<open>Properties of the floating-point arithmetic\<close>

text \<open>
  The floor and the ceiling of a quotient of numerals and \<open>bit_length\<close> on a binary
  numeral, for the evaluation of examples.
\<close>

lemma floor_rat_numeral [simp]:
  "\<lfloor>(numeral a :: rat) / numeral b\<rfloor> = numeral a div numeral b"
  using floor_divide_of_int_eq[of "numeral a" "numeral b", where ?'a = rat] by simp

lemma ceiling_rat_numeral [simp]:
  "\<lceil>(numeral a :: rat) / numeral b\<rceil> = - (- numeral a div numeral b)"
  using floor_divide_of_int_eq[of "- numeral a" "numeral b", where ?'a = rat]
  by (simp add: ceiling_def)

lemma bit_length_numeral [simp]:
  "bit_length 0 = 0"
  "bit_length 1 = 1"
  "bit_length (Suc 0) = 1"
  "bit_length (numeral Num.One) = 1"
  "bit_length (numeral (Num.Bit0 k)) = Suc (bit_length (numeral k))"
  "bit_length (numeral (Num.Bit1 k)) = Suc (bit_length (numeral k))"
proof -
  show "bit_length 0 = 0" by (simp add: bit_length.simps)
  show "bit_length 1 = 1" by (simp add: bit_length.simps)
  then show "bit_length (Suc 0) = 1" by simp
  then show "bit_length (numeral Num.One) = 1" by simp
  have "bit_length (numeral (Num.Bit0 k)) = Suc (bit_length (numeral (Num.Bit0 k) div 2))"
    by (subst bit_length.simps) simp
  then show "bit_length (numeral (Num.Bit0 k)) = Suc (bit_length (numeral k))" by simp
  have "bit_length (numeral (Num.Bit1 k)) = Suc (bit_length (numeral (Num.Bit1 k) div 2))"
    by (subst bit_length.simps) simp
  then show "bit_length (numeral (Num.Bit1 k)) = Suc (bit_length (numeral k))" by simp
qed

lemmas float_eval = float_sub_def round2_def to_double_def floor_log2_def pow2_def
  round_half_even_def Let_def

lemma pow2_pos: "0 < pow2 e"
  by (simp add: pow2_def)



lemma round_half_even_nearest: "\<bar>of_int (round_half_even y) - y\<bar> \<le> 1 / 2"
proof -
  have "of_int \<lfloor>y\<rfloor> \<le> y" "y < of_int \<lfloor>y\<rfloor> + 1" by linarith+
  then show ?thesis by (auto simp add: round_half_even_def Let_def)
qed


lemma bit_length_bounds: "0 < n \<Longrightarrow> 2 ^ (bit_length n - 1) \<le> n \<and> n < 2 ^ bit_length n"
proof (induction n rule: bit_length.induct)
  case (1 n)
  show ?case
  proof (cases "n div 2 = 0")
    case True
    with 1(2) have "n = 1" by (simp add: div_eq_0_iff) 
    then show ?thesis by (simp add: bit_length.simps)
  next
    case False
    with 1 have ih: "2 ^ (bit_length (n div 2) - 1) \<le> n div 2" "n div 2 < 2 ^ bit_length (n div 2)"
      by simp_all
    from False have pos: "0 < bit_length (n div 2)" by (subst bit_length.simps) simp
    have bl: "bit_length n = Suc (bit_length (n div 2))" using 1(2) by (subst bit_length.simps) simp
    have "(2::nat) ^ (bit_length n - 1) = 2 * 2 ^ (bit_length (n div 2) - 1)"
      using pos bl by (cases "bit_length (n div 2)") simp_all
    also have "\<dots> \<le> 2 * (n div 2)" using ih(1) by simp
    also have "\<dots> \<le> n" by simp
    finally have lo: "2 ^ (bit_length n - 1) \<le> n" .
    have "n < 2 * (n div 2 + 1)" by simp
    also have "\<dots> \<le> 2 * 2 ^ bit_length (n div 2)" using ih(2) by simp
    finally have "n < 2 ^ bit_length n" using bl by simp
    with lo show ?thesis by simp
  qed
qed


lemma pow2_neg: "pow2 (- int j) = 1 / 2 ^ j"
  by (cases j) (simp_all add: pow2_def nat_add_distrib)

lemma floor_log2_upper: "0 < x \<Longrightarrow> x < pow2 (floor_log2 x + 1)"
proof (cases "1 \<le> x")
  case True
  let ?n = "nat \<lfloor>x\<rfloor>"
  from True have n: "0 < ?n" by simp
  from bit_length_bounds[OF n] have "?n < 2 ^ bit_length ?n" by simp
  then have "Suc ?n \<le> 2 ^ bit_length ?n" by (rule Suc_leI)
  then have "(of_nat (Suc ?n) :: rat) \<le> of_nat (2 ^ bit_length ?n)" by (simp only: of_nat_le_iff)
  moreover have "(of_nat (Suc ?n) :: rat) = of_int \<lfloor>x\<rfloor> + 1" using True by simp
  ultimately have "of_int \<lfloor>x\<rfloor> + 1 \<le> (2 :: rat) ^ bit_length ?n" by simp
  moreover have "x < of_int \<lfloor>x\<rfloor> + 1" by linarith
  ultimately have "x < 2 ^ bit_length ?n" by linarith
  moreover from True have "floor_log2 x + 1 = int (bit_length ?n)" by (simp add: floor_log2_def)
  ultimately show ?thesis by (simp add: pow2_def)
next
  case False
  assume x: "0 < x"
  let ?n = "nat (\<lceil>1 / x\<rceil> - 1)"
  from False x have "1 < 1 / x" by simp
  then have c: "2 \<le> \<lceil>1 / x\<rceil>" by linarith
  then have n: "0 < ?n" by simp
  from n have pos: "0 < bit_length ?n" by (subst bit_length.simps) simp
  from bit_length_bounds[OF n] have "2 ^ (bit_length ?n - 1) \<le> ?n" by simp
  then have "(of_nat (2 ^ (bit_length ?n - 1)) :: rat) \<le> of_nat ?n" by (simp only: of_nat_le_iff)
  moreover have "(of_nat ?n :: rat) = of_int \<lceil>1 / x\<rceil> - 1"
  proof -
    have "int (nat (k - 1)) = k - 1" if "2 \<le> k" for k :: int using that by simp
    from this[OF c] have "int ?n = \<lceil>1 / x\<rceil> - 1" .
    then have "(of_int (int ?n) :: rat) = of_int (\<lceil>1 / x\<rceil> - 1)" by (rule arg_cong)
    then show ?thesis by (simp only: of_int_of_nat_eq of_int_diff of_int_1)
  qed
  moreover have "of_int \<lceil>1 / x\<rceil> - 1 < 1 / x" by linarith
  ultimately have "(2 :: rat) ^ (bit_length ?n - 1) < 1 / x" by simp
  then have "2 ^ (bit_length ?n - 1) * x < 1" using x by (simp add: field_simps)
  then have lt: "x < 1 / 2 ^ (bit_length ?n - 1)" by (simp add: field_simps)
  from False have "floor_log2 x + 1 = - int (bit_length ?n - 1)" using pos
    by (simp add: floor_log2_def)
  then have "pow2 (floor_log2 x + 1) = 1 / 2 ^ (bit_length ?n - 1)" by (simp only: pow2_neg)
  with lt show ?thesis by simp
qed


text \<open>
  A finite result of \<open>to_double\<close> is within half a unit in the last place of its
  argument; the result of a value that is not negative is not negative, and it is finite
  below \<open>2^1020\<close>.
\<close>

lemma to_double_nearest:
  assumes "to_double x = Finite y"
  shows "\<bar>y - x\<bar> \<le> pow2 (max (floor_log2 \<bar>x\<bar>) (- 1022) - 52) / 2"
proof (cases "x = 0")
  case True
  with assms have "y = 0" by (simp add: to_double_def)
  with True show ?thesis using pow2_pos[of "max (floor_log2 \<bar>x\<bar>) (- 1022) - 52"] by simp
next
  case False
  let ?ulp = "pow2 (max (floor_log2 \<bar>x\<bar>) (- 1022) - 52)"
  let ?m = "of_int (round_half_even (\<bar>x\<bar> / ?ulp)) :: rat"
  have up: "0 < ?ulp" by (rule pow2_pos)
  from assms False have y: "y = (if 0 < x then ?m * ?ulp else - (?m * ?ulp))"
    by (simp add: to_double_def Let_def split: if_splits)
  have "\<bar>?m - \<bar>x\<bar> / ?ulp\<bar> \<le> 1 / 2" by (rule round_half_even_nearest)
  then have "\<bar>?m - \<bar>x\<bar> / ?ulp\<bar> * ?ulp \<le> 1 / 2 * ?ulp"
    using up by (simp only: mult_le_cancel_right_pos)
  moreover have "\<bar>?m - \<bar>x\<bar> / ?ulp\<bar> * ?ulp = \<bar>?m * ?ulp - \<bar>x\<bar>\<bar>"
  proof -
    have "\<bar>?m - \<bar>x\<bar> / ?ulp\<bar> * ?ulp = \<bar>(?m - \<bar>x\<bar> / ?ulp) * ?ulp\<bar>"
      using up by (simp add: abs_mult)
    also have "(?m - \<bar>x\<bar> / ?ulp) * ?ulp = ?m * ?ulp - \<bar>x\<bar>"
      using up by (simp add: field_simps)
    finally show ?thesis .
  qed
  ultimately have b: "\<bar>?m * ?ulp - \<bar>x\<bar>\<bar> \<le> ?ulp / 2" by simp
  show ?thesis
  proof (cases "0 < x")
    case True
    with y b show ?thesis by simp
  next
    case neg: False
    with False have n: "x < 0" by simp
    with y have "y - x = - (?m * ?ulp - \<bar>x\<bar>)" by simp
    then have "\<bar>y - x\<bar> = \<bar>?m * ?ulp - \<bar>x\<bar>\<bar>" by (simp only: abs_minus_cancel)
    also note b
    finally show ?thesis .
  qed
qed







text \<open>
  A tie. With the first reading 0.0 and the last reading 0.000125, which is the double
  \<open>1152921504606847 / 2^63\<close>, the product of the difference and 1000 rounds to the
  double 0.125, which \<open>round(x, 2)\<close> takes to 0.12, the double
  \<open>1080863910568919 / 2^53\<close>. The exact product lies above 0.125, and its rounding
  to two decimals is 0.13.
\<close>

lemma response_time_at_tie:
  "to_double (1 / 8000) = Finite (1152921504606847 / 9223372036854775808)"
  "float_mul (float_sub (1152921504606847 / 9223372036854775808) 0) (Finite 1000) =
     Finite (1 / 8)"
  "float_round2 (float_mul (float_sub (1152921504606847 / 9223372036854775808) 0) (Finite 1000)) =
     Finite (1080863910568919 / 9007199254740992)"
  "to_double (12 / 100) = Finite (1080863910568919 / 9007199254740992)"
  "round2 ((1152921504606847 / 9223372036854775808 - 0) * 1000) = 13 / 100"
  by (simp_all add: float_eval)

section \<open>Properties of the validator\<close>

lemma errors_object:
  "validation.errors (validate_weather_response fr (JObject kvs) city test_type) =
     (if filter (\<lambda>field. map_of kvs field = None) required_fields \<noteq> []
      then [''Missing required fields: '' @
              join '', '' (filter (\<lambda>field. map_of kvs field = None) required_fields)]
      else []) @ field_errors kvs"
  by (simp add: validate_weather_response_def field_errors_def Let_def split: option.splits)

lemma is_valid_object:
  "is_valid (validate_weather_response fr (JObject kvs) city test_type) \<longleftrightarrow>
     filter (\<lambda>field. map_of kvs field = None) required_fields = [] \<and> field_errors kvs = []"
  by (simp add: validate_weather_response_def field_errors_def Let_def split: option.splits)

lemma set_field_errors:
  "set (field_errors kvs) \<subseteq>
     {''Temperature is not numeric'', ''Weather description is empty or invalid'',
      ''City name is empty or invalid''}"
  by (auto simp add: field_errors_def split: option.splits)

lemma missing_filter:
  "filter (\<lambda>field. map_of kvs field = None) fs = filter (\<lambda>field. field \<notin> fst ` set kvs) fs"
  by (simp add: map_of_eq_None_iff)

text \<open>
  Claim C10. The report of the validator depends on the payload only: for any two
  pairs of city and test type the reports of the same payload are equal.
\<close>

theorem validate_ignores_city_and_test_type:
  "validate_weather_response fr data city1 test_type1 =
   validate_weather_response fr data city2 test_type2"
  by (simp add: validate_weather_response_def)

text \<open>
  Claim C7, as stated, says that every payload is reported invalid. The payload of
  scenario B, an object with a city, a temperature of 18.5 and a description, is
  reported valid.
\<close>

theorem validate_accepts_well_formed:
  "is_valid (validate_weather_response demo_float_repr
     (JObject [(''city'', JString ''Paris''), (''temperature'', JFloat (Finite (37 / 2))),
               (''description'', JString ''Clear'')])
     ''Paris'' ''valid'')"
  by (simp add: validate_weather_response_def required_fields_def strip_def isspace_def)

text \<open>
  Claim C7, amended. A payload that is not an object gets the report with
  \<open>is_valid\<close> false, the single error "Response is not a JSON object" and no found
  fields. An object that lacks one of the fields city, temperature, description is
  reported invalid, and its errors start with one combined error that lists the missing
  names, joined by a comma and a space, in that order; the errors after it are errors of
  the field checks.
\<close>

theorem validate_rejects_malformed:
  "((\<forall>kvs. data \<noteq> JObject kvs) \<longrightarrow>
      validate_weather_response fr data city test_type =
        \<lparr>is_valid = False, errors = [''Response is not a JSON object''], warnings = [],
         found_fields = []\<rparr>) \<and>
   (\<forall>kvs. data = JObject kvs \<and>
          (\<exists>field \<in> set [''city'', ''temperature'', ''description'']. field \<notin> fst ` set kvs) \<longrightarrow>
      \<not> is_valid (validate_weather_response fr data city test_type) \<and>
      (\<exists>rest. validation.errors (validate_weather_response fr data city test_type) =
          (''Missing required fields: '' @
             join '', '' [field \<leftarrow> [''city'', ''temperature'', ''description''].
                           field \<notin> fst ` set kvs]) # rest \<and>
          set rest \<subseteq> {''Temperature is not numeric'', ''Weather description is empty or invalid'',
                       ''City name is empty or invalid''}))"
proof (intro conjI impI allI)
  assume "\<forall>kvs. data \<noteq> JObject kvs"
  then show "validate_weather_response fr data city test_type =
        \<lparr>is_valid = False, errors = [''Response is not a JSON object''], warnings = [],
         found_fields = []\<rparr>"
    by (cases data) (simp_all add: validate_weather_response_def)
next
  fix kvs
  assume a: "data = JObject kvs \<and>
    (\<exists>field \<in> set [''city'', ''temperature'', ''description'']. field \<notin> fst ` set kvs)"
  then obtain field where f: "field \<in> set required_fields" "field \<notin> fst ` set kvs"
    by (auto simp add: required_fields_def)
  from f(2) have "map_of kvs field = None" by (simp add: map_of_eq_None_iff)
  with f(1) have ne: "filter (\<lambda>field. map_of kvs field = None) required_fields \<noteq> []"
    by (auto simp add: filter_empty_conv)
  from a ne show "\<not> is_valid (validate_weather_response fr data city test_type)"
    by (simp add: is_valid_object)
  have "validation.errors (validate_weather_response fr data city test_type) =
          (''Missing required fields: '' @
             join '', '' [field \<leftarrow> [''city'', ''temperature'', ''description''].
                           field \<notin> fst ` set kvs]) # field_errors kvs"
  proof -
    from a have d: "data = JObject kvs" by simp
    have mf: "filter (\<lambda>field. map_of kvs field = None) required_fields =
              [field \<leftarrow> [''city'', ''temperature'', ''description'']. field \<notin> fst ` set kvs]"
      by (simp only: missing_filter required_fields_def)
    have "validation.errors (validate_weather_response fr (JObject kvs) city test_type) =
            [''Missing required fields: '' @
               join '', '' (filter (\<lambda>field. map_of kvs field = None) required_fields)]
            @ field_errors kvs"
      using ne by (simp add: errors_object)
    then show ?thesis by (simp only: d mf append_Cons append_Nil)
  qed
  then show "\<exists>rest. validation.errors (validate_weather_response fr data city test_type) =
          (''Missing required fields: '' @
             join '', '' [field \<leftarrow> [''city'', ''temperature'', ''description''].
                           field \<notin> fst ` set kvs]) # rest \<and>
          set rest \<subseteq> {''Temperature is not numeric'', ''Weather description is empty or invalid'',
                       ''City name is empty or invalid''}"
    using set_field_errors by blast
qed

text \<open>
  Claim C7, amended, on two payloads: the string "oops", and the object of scenario D
  without its city and description, whose temperature is the string "hot".
\<close>

theorem validate_rejects_malformed_witness:
  "validate_weather_response demo_float_repr (JString ''oops'') ''Rome'' ''valid'' =
     \<lparr>is_valid = False, errors = [''Response is not a JSON object''], warnings = [],
      found_fields = []\<rparr> \<and>
   \<not> is_valid (validate_weather_response demo_float_repr
        (JObject [(''temperature'', JString ''hot'')]) ''Rome'' ''valid'') \<and>
   (\<exists>rest. validation.errors (validate_weather_response demo_float_repr
        (JObject [(''temperature'', JString ''hot'')]) ''Rome'' ''valid'') =
      ''Missing required fields: city, description'' # rest)"
proof -
  have 1: "\<forall>kvs. JString ''oops'' \<noteq> JObject kvs" by simp
  have 2: "JObject [(''temperature'', JString ''hot'')] = JObject [(''temperature'', JString ''hot'')] \<and>
           (\<exists>field \<in> set [''city'', ''temperature'', ''description''].
               field \<notin> fst ` set [(''temperature'', JString ''hot'')])" by simp
  from validate_rejects_malformed[of "JString ''oops''" demo_float_repr "''Rome''" "''valid''"] 1
  have a: "validate_weather_response demo_float_repr (JString ''oops'') ''Rome'' ''valid'' =
     \<lparr>is_valid = False, errors = [''Response is not a JSON object''], warnings = [],
      found_fields = []\<rparr>" by blast
  from validate_rejects_malformed[of "JObject [(''temperature'', JString ''hot'')]"
         demo_float_repr "''Rome''" "''valid''"] 2
  have b: "\<not> is_valid (validate_weather_response demo_float_repr
             (JObject [(''temperature'', JString ''hot'')]) ''Rome'' ''valid'') \<and>
      (\<exists>rest. validation.errors (validate_weather_response demo_float_repr
             (JObject [(''temperature'', JString ''hot'')]) ''Rome'' ''valid'') =
          (''Missing required fields: '' @
             join '', '' [field \<leftarrow> [''city'', ''temperature'', ''description''].
                           field \<notin> fst ` set [(''temperature'', JString ''hot'')]]) # rest \<and>
          set rest \<subseteq> {''Temperature is not numeric'', ''Weather description is empty or invalid'',
                       ''City name is empty or invalid''})" by blast
  from a b show ?thesis by auto
qed

text \<open>
  Claim C8 says that a temperature that is neither an integer nor a floating-point
  number, a JSON boolean included, gets an error and makes the report invalid. The
  payload of scenario D with the temperature \<open>true\<close> is reported valid, with no error
  and no warning: \<open>isinstance(True, (int, float))\<close> holds in Python.
\<close>

theorem boolean_temperature_accepted:
  "validate_weather_response demo_float_repr
     (JObject [(''city'', JString ''Rome''), (''temperature'', JBool True),
               (''description'', JString ''Sunny'')])
     ''Rome'' ''valid'' =
   \<lparr>is_valid = True, errors = [], warnings = [],
    found_fields = [''city'', ''temperature'', ''description'']\<rparr>"
  by (simp add: validate_weather_response_def required_fields_def strip_def isspace_def)

section \<open>Properties of the prober\<close>

lemma probe_described_step:
  "probe_described sys (endpoint # rest) tr =
     (if describes_weather sys (session_get sys tr endpoint 5)
      then (True, tr @ [Get endpoint 5 (session_get sys tr endpoint 5)])
      else probe_described sys rest (tr @ [Get endpoint 5 (session_get sys tr endpoint 5)]))"
  by (simp add: http_get_def describes_weather_def Let_def split: sum.splits)

lemma probe_routed_step:
  "probe_routed sys (endpoint # rest) tr =
     (if route_answer (session_get sys tr endpoint 5)
      then (True, tr @ [Get endpoint 5 (session_get sys tr endpoint 5)])
      else probe_routed sys rest (tr @ [Get endpoint 5 (session_get sys tr endpoint 5)]))"
  by (simp add: http_get_def route_answer_def Let_def split: sum.splits)

lemma probe_described_trace:
  "probe_described sys eps tr = (b, tr') \<Longrightarrow>
     \<exists>evs. tr' = tr @ evs \<and> (\<forall>ev\<in>set evs. \<exists>u out. ev = Get u 5 out) \<and>
           (b \<longrightarrow> (\<exists>u\<in>set eps. \<exists>out. Get u 5 out \<in> set evs \<and> describes_weather sys out))"
proof (induction eps arbitrary: tr)
  case Nil
  then show ?case by simp
next
  case (Cons endpoint rest)
  let ?out = "session_get sys tr endpoint 5"
  show ?case
  proof (cases "describes_weather sys ?out")
    case True
    with Cons.prems have "b = True" "tr' = tr @ [Get endpoint 5 ?out]"
      by (simp_all only: probe_described_step if_True prod.inject)
    with True show ?thesis by auto
  next
    case False
    with Cons.prems have "probe_described sys rest (tr @ [Get endpoint 5 ?out]) = (b, tr')"
      by (simp only: probe_described_step if_False)
    from Cons.IH[OF this] obtain evs where
      e: "tr' = (tr @ [Get endpoint 5 ?out]) @ evs" "\<forall>ev\<in>set evs. \<exists>u out. ev = Get u 5 out"
         "b \<longrightarrow> (\<exists>u\<in>set rest. \<exists>out. Get u 5 out \<in> set evs \<and> describes_weather sys out)"
      by blast
    show ?thesis
    proof (intro exI[of _ "Get endpoint 5 ?out # evs"] conjI)
      show "tr' = tr @ Get endpoint 5 ?out # evs" using e(1) by simp
      show "\<forall>ev\<in>set (Get endpoint 5 ?out # evs). \<exists>u out. ev = Get u 5 out" using e(2) by simp
      show "b \<longrightarrow> (\<exists>u\<in>set (endpoint # rest). \<exists>out.
                    Get u 5 out \<in> set (Get endpoint 5 ?out # evs) \<and> describes_weather sys out)"
        using e(3) by auto
    qed
  qed
qed

lemma probe_routed_trace:
  "probe_routed sys eps tr = (b, tr') \<Longrightarrow>
     \<exists>evs. tr' = tr @ evs \<and> (\<forall>ev\<in>set evs. \<exists>u out. ev = Get u 5 out) \<and>
           (b \<longrightarrow> (\<exists>u\<in>set eps. \<exists>out. Get u 5 out \<in> set evs \<and> route_answer out))"
proof (induction eps arbitrary: tr)
  case Nil
  then show ?case by simp
next
  case (Cons endpoint rest)
  let ?out = "session_get sys tr endpoint 5"
  show ?case
  proof (cases "route_answer ?out")
    case True
    with Cons.prems have "b = True" "tr' = tr @ [Get endpoint 5 ?out]"
      by (simp_all only: probe_routed_step if_True prod.inject)
    with True show ?thesis by auto
  next
    case False
    with Cons.prems have "probe_routed sys rest (tr @ [Get endpoint 5 ?out]) = (b, tr')"
      by (simp only: probe_routed_step if_False)
    from Cons.IH[OF this] obtain evs where
      e: "tr' = (tr @ [Get endpoint 5 ?out]) @ evs" "\<forall>ev\<in>set evs. \<exists>u out. ev = Get u 5 out"
         "b \<longrightarrow> (\<exists>u\<in>set rest. \<exists>out. Get u 5 out \<in> set evs \<and> route_answer out)"
      by blast
    show ?thesis
    proof (intro exI[of _ "Get endpoint 5 ?out # evs"] conjI)
      show "tr' = tr @ Get endpoint 5 ?out # evs" using e(1) by simp
      show "\<forall>ev\<in>set (Get endpoint 5 ?out # evs). \<exists>u out. ev = Get u 5 out" using e(2) by simp
      show "b \<longrightarrow> (\<exists>u\<in>set (endpoint # rest). \<exists>out.
                    Get u 5 out \<in> set (Get endpoint 5 ?out # evs) \<and> route_answer out)"
        using e(3) by auto
    qed
  qed
qed

text \<open>
  The prober only adds requests with a timeout of 5 to the history, and it reports an
  API only after an answer that counts as evidence.
\<close>

lemma check_trace:
  assumes "check_for_weather_endpoints sys base tr = (b, tr')"
  shows "\<exists>evs. tr' = tr @ evs \<and> (\<forall>ev\<in>set evs. \<exists>u out. ev = Get u 5 out) \<and>
           (b \<longrightarrow> (\<exists>ev\<in>set evs. evidence sys base ev))"
proof -
  obtain d tr1 where
    pd: "probe_described sys [base @ ''/api/health'', base @ ''/api/info''] tr = (d, tr1)"
    by (cases "probe_described sys [base @ ''/api/health'', base @ ''/api/info''] tr")
  from probe_described_trace[OF pd] obtain evs1 where
    e1: "tr1 = tr @ evs1" "\<forall>ev\<in>set evs1. \<exists>u out. ev = Get u 5 out"
        "d \<longrightarrow> (\<exists>u\<in>set [base @ ''/api/health'', base @ ''/api/info'']. \<exists>out.
                  Get u 5 out \<in> set evs1 \<and> describes_weather sys out)"
    by blast
  show ?thesis
  proof (cases d)
    case True
    with assms pd have "b = True" "tr' = tr1"
      by (simp_all add: check_for_weather_endpoints_def)
    moreover from True e1(3) have "\<exists>ev\<in>set evs1. evidence sys base ev"
      by (metis evidence.simps(1) list.set_intros(1) set_ConsD list.set(1) empty_iff)
    ultimately show ?thesis using e1 by blast
  next
    case False
    with assms pd have
      pr: "probe_routed sys [base @ ''/weather?city=test'', base @ ''/api/weather/test''] tr1
             = (b, tr')"
      by (simp add: check_for_weather_endpoints_def)
    from probe_routed_trace[OF pr] obtain evs2 where
      e2: "tr' = tr1 @ evs2" "\<forall>ev\<in>set evs2. \<exists>u out. ev = Get u 5 out"
        "b \<longrightarrow> (\<exists>u\<in>set [base @ ''/weather?city=test'', base @ ''/api/weather/test'']. \<exists>out.
                  Get u 5 out \<in> set evs2 \<and> route_answer out)"
      by blast
    have ev: "b \<longrightarrow> (\<exists>ev\<in>set evs2. evidence sys base ev)"
      using e2(3) by (metis evidence.simps(1) list.set_intros(1) set_ConsD list.set(1) empty_iff)
    show ?thesis
    proof (intro exI[of _ "evs1 @ evs2"] conjI)
      show "tr' = tr @ evs1 @ evs2" using e1(1) e2(1) by simp
      show "\<forall>ev\<in>set (evs1 @ evs2). \<exists>u out. ev = Get u 5 out" using e1(2) e2(2) by auto
      show "b \<longrightarrow> (\<exists>ev\<in>set (evs1 @ evs2). evidence sys base ev)" using ev by auto
    qed
  qed
qed

text \<open>
  Claim C6. The prober is a total function of the environment: every exception of a
  request or of \<open>response.json()\<close> is an outcome that it skips, so it returns a boolean
  whatever the client does. When no request of its run is answered with evidence (no
  self-describing endpoint with status 200 and a body that mentions both words, no
  guessed endpoint with status 200, 400 or 404), it returns false.
\<close>

theorem probe_without_evidence_false:
  assumes "check_for_weather_endpoints sys base tr = (found, tr')"
    and "\<forall>ev \<in> set (drop (length tr) tr'). \<not> evidence sys base ev"
  shows "\<not> found"
proof -
  from check_trace[OF assms(1)] obtain evs where
    "tr' = tr @ evs" "found \<longrightarrow> (\<exists>ev\<in>set evs. evidence sys base ev)" by blast
  with assms(2) show ?thesis by auto
qed

lemmas demo_defs =
  read_clock_def read_now_def check_for_weather_endpoints_def create_mock_test_result_def
  http_get_def demo_sys_def demo_get_def demo_clock_def demo_now_def demo_server_def
  describing_def not_found_def unreadable_def refusing_def lower_def lower_char_def
  encode_string_def escape_char_def float_eval str_int_def str_nat.simps digit_char_def
  strip_def isspace_def valid_cities_def

lemma check_refusing:
  "check_for_weather_endpoints (demo_sys refusing) ''http://t''
     [Time 0, Now ''2024-01-01T00:00:00''] =
   (False,
    [Time 0, Now ''2024-01-01T00:00:00'',
     Get ''http://t/api/health'' 5 (Inl (ConnectionError ''refused'')),
     Get ''http://t/api/info'' 5 (Inl (ConnectionError ''refused'')),
     Get ''http://t/weather?city=test'' 5 (Inl (ConnectionError ''refused'')),
     Get ''http://t/api/weather/test'' 5 (Inl (ConnectionError ''refused''))])"
  by (simp add: demo_defs)

text \<open>
  Claim C6 on a server that refuses every connection: the four requests of the prober
  raise, none is evidence, and the prober returns false.
\<close>

theorem probe_without_evidence_false_witness:
  "filter (evidence (demo_sys refusing) ''http://t'')
     (drop (length [Time 0, Now ''2024-01-01T00:00:00''])
        (snd (check_for_weather_endpoints (demo_sys refusing) ''http://t''
               [Time 0, Now ''2024-01-01T00:00:00'']))) = [] \<and>
   \<not> fst (check_for_weather_endpoints (demo_sys refusing) ''http://t''
            [Time 0, Now ''2024-01-01T00:00:00''])"
proof -
  have h: "\<forall>ev \<in> set (drop (length [Time 0, Now ''2024-01-01T00:00:00''])
       [Time 0, Now ''2024-01-01T00:00:00'',
        Get ''http://t/api/health'' 5 (Inl (ConnectionError ''refused'')),
        Get ''http://t/api/info'' 5 (Inl (ConnectionError ''refused'')),
        Get ''http://t/weather?city=test'' 5 (Inl (ConnectionError ''refused'')),
        Get ''http://t/api/weather/test'' 5 (Inl (ConnectionError ''refused''))]).
      \<not> evidence (demo_sys refusing) ''http://t'' ev"
    by (simp add: describes_weather_def route_answer_def)
  from probe_without_evidence_false[OF check_refusing h] h show ?thesis
    by (simp add: check_refusing describes_weather_def route_answer_def)
qed

section \<open>Properties of the dispatcher\<close>

lemma passed_handle_exception [simp]: "passed (handle_exception e r) = passed r"
  by (cases e) simp_all

lemma time_handle_exception [simp]:
  "response_time_ms (handle_exception e r) = response_time_ms r"
  by (cases e) simp_all

lemma endpoint_handle_exception [simp]: "api_endpoint (handle_exception e r) = api_endpoint r"
  by (cases e) simp_all

lemma handle_exception_recorded:
  "case ex of
     Timeout m \<Rightarrow> status_code (handle_exception ex r) = Some 408 \<and>
       ''Request timeout (>10 seconds)'' \<in> set (errors (handle_exception ex r))
   | ConnectionError m \<Rightarrow> status_code (handle_exception ex r) = Some 0 \<and>
       ''Connection error - API might be down'' \<in> set (errors (handle_exception ex r))
   | _ \<Rightarrow> status_code (handle_exception ex r) = Some 500 \<and>
       (''Unexpected error: '' @ str_exn ex) \<in> set (errors (handle_exception ex r))"
  by (cases ex) simp_all

text \<open>One round of the loop: a request that raises, and a 404 that is passed over.\<close>

lemma try_endpoints_fault:
  "session_get sys tr endpoint 10 = Inl e \<Longrightarrow>
     try_endpoints sys st c tt (endpoint # rest) result tr =
       (handle_exception e result, tr @ [Get endpoint 10 (Inl e)])"
  by (simp add: http_get_def Let_def)

lemma try_endpoints_continue:
  "session_get sys tr endpoint 10 = Inr response \<Longrightarrow>
   response.status_code response = 404 \<Longrightarrow> tt \<noteq> ''invalid'' \<Longrightarrow>
     try_endpoints sys st c tt (endpoint # rest) result tr =
       try_endpoints sys st c tt rest
         (result\<lparr>api_endpoint := Some endpoint,
                 status_code := Some (response.status_code response),
                 response_time_ms :=
                   float_round2 (float_mul
                     (float_sub (time_time sys (tr @ [Get endpoint 10 (Inr response)])) st)
                     (Finite 1000))\<rparr>)
         (tr @ [Get endpoint 10 (Inr response),
                Time (time_time sys (tr @ [Get endpoint 10 (Inr response)]))])"
  by (simp add: http_get_def read_clock_def Let_def)

text \<open>The loop sets \<open>passed\<close> only with a valid report or on a rejected invalid input.\<close>

lemma try_endpoints_passed:
  "try_endpoints sys st c tt eps result tr = (r', tr') \<Longrightarrow> \<not> passed result \<Longrightarrow> passed r' \<Longrightarrow>
     results_is_valid (validation_results r') = Some True \<or>
     (status_code r' \<in> {Some 400, Some 404, Some 422} \<and> tt = ''invalid'')"
proof (induction eps arbitrary: result tr)
  case Nil
  then show ?case by simp
next
  case (Cons endpoint rest)
  show ?case
  proof (cases "session_get sys tr endpoint 10")
    case (Inl e)
    from Cons.prems(1) have "r' = handle_exception e result" "tr' = tr @ [Get endpoint 10 (Inl e)]"
      by (simp_all only: try_endpoints_fault[OF Inl] prod.inject)
    with Cons.prems show ?thesis by simp
  next
    case (Inr response)
    with Cons.prems Cons.IH show ?thesis
      by (auto simp add: http_get_def read_clock_def Let_def split: sum.splits exn.splits if_splits)
  qed
qed

lemma clock_readings_append [simp]:
  "clock_readings (xs @ ys) = clock_readings xs @ clock_readings ys"
  by (induction xs rule: clock_readings.induct) simp_all


declare try_endpoints.simps [simp del]

text \<open>
  A request of the loop that raises ends the loop: it is the last event of the history,
  and the result is the one of the handler of the exception, applied to a result that had
  not passed. The same handlers take an exception of \<open>response.json()\<close> that is not a
  \<open>JSONDecodeError\<close>, raised on an answer with status 200.
\<close>

lemma try_endpoints_faults:
  "try_endpoints sys st c tt eps result tr = (r', tr') \<Longrightarrow> \<not> passed result \<Longrightarrow>
     \<exists>evs. tr' = tr @ evs \<and>
       (\<forall>u ex. Get u 10 (Inl ex) \<in> set evs \<longrightarrow>
          last evs = Get u 10 (Inl ex) \<and> (\<exists>r0. r' = handle_exception ex r0 \<and> \<not> passed r0)) \<and>
       (\<forall>u resp ex. Get u 10 (Inr resp) \<in> set evs \<and> response.status_code resp = 200 \<and>
            json resp = Inl ex \<and> (\<forall>m. ex \<noteq> JSONDecodeError m) \<longrightarrow>
          (\<exists>r0. r' = handle_exception ex r0 \<and> \<not> passed r0))"
proof (induction eps arbitrary: result tr)
  case Nil
  then show ?case by (simp add: try_endpoints.simps)
next
  case (Cons endpoint rest)
  show ?case
  proof (cases "session_get sys tr endpoint 10")
    case (Inl e)
    from Cons.prems(1) have "r' = handle_exception e result" "tr' = tr @ [Get endpoint 10 (Inl e)]"
      by (simp_all only: try_endpoints_fault[OF Inl] prod.inject)
    with Cons.prems(2) show ?thesis by (intro exI[of _ "[Get endpoint 10 (Inl e)]"]) auto
  next
    case (Inr response)
    let ?t = "time_time sys (tr @ [Get endpoint 10 (Inr response)])"
    let ?tr2 = "tr @ [Get endpoint 10 (Inr response), Time ?t]"
    let ?r1 = "result\<lparr>api_endpoint := Some endpoint,
                      status_code := Some (response.status_code response),
                      response_time_ms :=
                        float_round2 (float_mul (float_sub ?t st) (Finite 1000))\<rparr>"
    show ?thesis
    proof (cases "response.status_code response = 404 \<and> tt \<noteq> ''invalid''")
      case True
      then have c: "response.status_code response = 404" "tt \<noteq> ''invalid''" by simp_all
      have te: "try_endpoints sys st c tt rest ?r1 ?tr2 = (r', tr')"
        using Cons.prems by (simp only: try_endpoints_continue[OF Inr c])
      have np: "\<not> passed ?r1" using Cons.prems(2) by simp
      from Cons.IH[OF te np] obtain evs where
        e: "tr' = ?tr2 @ evs"
           "\<forall>u ex. Get u 10 (Inl ex) \<in> set evs \<longrightarrow>
              last evs = Get u 10 (Inl ex) \<and> (\<exists>r0. r' = handle_exception ex r0 \<and> \<not> passed r0)"
           "\<forall>u resp ex. Get u 10 (Inr resp) \<in> set evs \<and> response.status_code resp = 200 \<and>
              json resp = Inl ex \<and> (\<forall>m. ex \<noteq> JSONDecodeError m) \<longrightarrow>
              (\<exists>r0. r' = handle_exception ex r0 \<and> \<not> passed r0)" by blast
      show ?thesis
      proof (intro exI[of _ "[Get endpoint 10 (Inr response), Time ?t] @ evs"] conjI allI impI)
        show "tr' = tr @ [Get endpoint 10 (Inr response), Time ?t] @ evs" using e(1) by simp
      next
        fix u ex
        assume "Get u 10 (Inl ex) \<in> set ([Get endpoint 10 (Inr response), Time ?t] @ evs)"
        then have m: "Get u 10 (Inl ex) \<in> set evs" by simp
        with e(2) have l: "last evs = Get u 10 (Inl ex)"
          and h: "\<exists>r0. r' = handle_exception ex r0 \<and> \<not> passed r0" by blast+
        from m have "evs \<noteq> []" by auto
        with l show "last ([Get endpoint 10 (Inr response), Time ?t] @ evs) = Get u 10 (Inl ex)"
          by simp
        from h show "\<exists>r0. r' = handle_exception ex r0 \<and> \<not> passed r0" .
      next
        fix u resp ex
        assume a: "Get u 10 (Inr resp) \<in> set ([Get endpoint 10 (Inr response), Time ?t] @ evs) \<and>
          response.status_code resp = 200 \<and> json resp = Inl ex \<and> (\<forall>m. ex \<noteq> JSONDecodeError m)"
        with c(1) have "Get u 10 (Inr resp) \<in> set evs" by auto
        with a e(3) show "\<exists>r0. r' = handle_exception ex r0 \<and> \<not> passed r0" by blast
      qed
    next
      case False
      with Inr Cons.prems have tr': "tr' = ?tr2"
        by (auto simp add: try_endpoints.simps http_get_def read_clock_def Let_def
                 split: sum.splits exn.splits if_splits)
      have j: "r' = handle_exception ex ?r1"
        if "response.status_code response = 200" "json response = Inl ex"
           "\<forall>m. ex \<noteq> JSONDecodeError m" for ex
        using that Inr Cons.prems(1)
        by (cases ex) (auto simp add: try_endpoints.simps http_get_def read_clock_def Let_def)
      show ?thesis
      proof (intro exI[of _ "[Get endpoint 10 (Inr response), Time ?t]"] conjI allI impI)
        show "tr' = tr @ [Get endpoint 10 (Inr response), Time ?t]" using tr' by simp
      next
        fix u ex
        assume "Get u 10 (Inl ex) \<in> set [Get endpoint 10 (Inr response), Time ?t]"
        then have False by simp
        then show "last [Get endpoint 10 (Inr response), Time ?t] = Get u 10 (Inl ex)"
          and "\<exists>r0. r' = handle_exception ex r0 \<and> \<not> passed r0" by simp_all
      next
        fix u resp ex
        assume a: "Get u 10 (Inr resp) \<in> set [Get endpoint 10 (Inr response), Time ?t] \<and>
          response.status_code resp = 200 \<and> json resp = Inl ex \<and> (\<forall>m. ex \<noteq> JSONDecodeError m)"
        then have "resp = response" by simp
        with a j[of ex] have "r' = handle_exception ex ?r1" by simp
        moreover have "\<not> passed ?r1" using Cons.prems(2) by simp
        ultimately show "\<exists>r0. r' = handle_exception ex r0 \<and> \<not> passed r0" by blast
      qed
    qed
  qed
qed

text \<open>
  With the test type \<open>invalid\<close> the first round ends the loop: the request raises, or
  it is answered, and an answer with status 400, 404 or 422 is a pass.
\<close>

lemma try_endpoints_invalid:
  assumes "try_endpoints sys st c ''invalid'' (endpoint # rest) result tr = (r', tr')"
  shows "(\<exists>e. tr' = tr @ [Get endpoint 10 (Inl e)]) \<or>
         (\<exists>response t. tr' = tr @ [Get endpoint 10 (Inr response), Time t] \<and>
            (response.status_code response \<in> {400, 404, 422} \<longrightarrow>
               passed r' \<and> api_endpoint r' = Some endpoint \<and>
               errors r' = errors result @
                 [''Correctly returned error '' @ str_int (response.status_code response)
                    @ '' for invalid input'']))"
proof (cases "session_get sys tr endpoint 10")
  case (Inl e)
  from assms have "tr' = tr @ [Get endpoint 10 (Inl e)]"
    by (simp only: try_endpoints_fault[OF Inl] prod.inject)
  then show ?thesis by blast
next
  case (Inr response)
  with assms show ?thesis
    by (auto simp add: try_endpoints.simps http_get_def read_clock_def Let_def
             split: sum.splits exn.splits if_splits)
qed

lemma probes_not_dispatch:
  "\<forall>ev\<in>set evs. \<exists>u out. ev = Get u 5 out \<Longrightarrow> filter dispatch_get evs = []"
  by (auto simp add: filter_empty_conv)


text \<open>\<open>test_api_endpoint\<close> with its two clock readings and the probe written out.\<close>

lemma test_api_endpoint_unfold:
  "test_api_endpoint sys base city tt tr =
     (let t0 = time_time sys tr;
          now = datetime_now sys (tr @ [Time t0]);
          chk = check_for_weather_endpoints sys base (tr @ [Time t0, Now now])
      in if \<not> fst chk then create_mock_test_result sys base city tt t0 (snd chk)
         else
           (let run = try_endpoints sys t0 city tt
                        [base @ ''/api/weather/'' @ city, base @ ''/weather?city='' @ city,
                         base @ ''/api/weather?city='' @ city, base @ ''/weather/'' @ city]
                        \<lparr>timestamp = now, result_city = city, result_test_type = tt,
                         passed = False, api_endpoint = None, status_code = None,
                         response_time_ms = Finite 0, response_data = None, errors = [],
                         validation_results = Empty_dict\<rparr>
                        (snd chk)
            in (if api_endpoint (fst run) = None
                then (fst run)\<lparr>errors := errors (fst run) @ [''No valid API endpoint found'']\<rparr>
                else fst run, snd run)))"
  by (simp add: test_api_endpoint_def read_clock_def read_now_def Let_def split: prod.splits)

lemma create_mock_props:
  assumes "create_mock_test_result sys base city tt st tr = (r, tr')"
  shows "tr' = tr @ [Time (time_time sys tr),
                     Now (datetime_now sys (tr @ [Time (time_time sys tr)]))]"
    and "status_code r = Some 404"
    and "api_endpoint r = Some (base @ ''/weather?city='' @ city)"
    and "passed r \<longleftrightarrow>
           tt = ''invalid'' \<and> strip city \<in> set ['''', ''   '', ''XYZ123NotReal'', ''123456'']"
    and "response_time_ms r =
           float_round2 (float_mul (float_sub (time_time sys tr) st) (Finite 1000))"
    and "passed r \<longrightarrow> results_is_valid (validation_results r) = Some True"
  using assms
  by (auto simp add: create_mock_test_result_def read_clock_def read_now_def Let_def
           split: if_splits)

subsection \<open>Runs in the concrete environments\<close>

text \<open>Every candidate endpoint answers 404 to a test of type \<open>valid\<close>.\<close>

lemma run_all_404:
  "test_api_endpoint (demo_sys (demo_server (Inr not_found))) ''http://t'' ''London'' ''valid'' [] =
   (\<lparr>timestamp = ''2024-01-01T00:00:00'', result_city = ''London'',
     result_test_type = ''valid'', passed = False,
     api_endpoint = Some ''http://t/weather/London'',
     status_code = Some 404, response_time_ms = Finite 10000, response_data = None,
     errors = [], validation_results = Empty_dict\<rparr>,
    [Time 0, Now ''2024-01-01T00:00:00'',
     Get ''http://t/api/health'' 5 (Inr describing),
     Get ''http://t/api/weather/London'' 10 (Inr not_found), Time 4,
     Get ''http://t/weather?city=London'' 10 (Inr not_found), Time 6,
     Get ''http://t/api/weather?city=London'' 10 (Inr not_found), Time 8,
     Get ''http://t/weather/London'' 10 (Inr not_found), Time 10])"
  by (simp add: demo_defs test_api_endpoint_def try_endpoints.simps)

text \<open>The first candidate endpoint answers 404 to the empty city, tested as \<open>invalid\<close>.\<close>

lemma run_invalid_404:
  "test_api_endpoint (demo_sys (demo_server (Inr not_found))) ''http://t'' '''' ''invalid'' [] =
   (\<lparr>timestamp = ''2024-01-01T00:00:00'', result_city = [],
     result_test_type = ''invalid'', passed = True,
     api_endpoint = Some ''http://t/api/weather/'', status_code = Some 404,
     response_time_ms = Finite 4000, response_data = None,
     errors = [''Correctly returned error 404 for invalid input''],
     validation_results = Empty_dict\<rparr>,
    [Time 0, Now ''2024-01-01T00:00:00'',
     Get ''http://t/api/health'' 5 (Inr describing),
     Get ''http://t/api/weather/'' 10 (Inr not_found), Time 4])"
  by (simp add: demo_defs test_api_endpoint_def try_endpoints.simps)

text \<open>The request to the first candidate endpoint raises \<open>e\<close>.\<close>

lemma run_fault:
  "test_api_endpoint (demo_sys (demo_server (Inl e))) ''http://t'' ''London'' ''valid'' [] =
   ((handle_exception e
       \<lparr>timestamp = ''2024-01-01T00:00:00'', result_city = ''London'',
        result_test_type = ''valid'', passed = False, api_endpoint = None,
        status_code = None, response_time_ms = Finite 0, response_data = None, errors = [],
        validation_results = Empty_dict\<rparr>)
     \<lparr>errors :=
        errors (handle_exception e
          \<lparr>timestamp = ''2024-01-01T00:00:00'', result_city = ''London'',
           result_test_type = ''valid'', passed = False, api_endpoint = None,
           status_code = None, response_time_ms = Finite 0, response_data = None, errors = [],
           validation_results = Empty_dict\<rparr>) @ [''No valid API endpoint found'']\<rparr>,
    [Time 0, Now ''2024-01-01T00:00:00'',
     Get ''http://t/api/health'' 5 (Inr describing),
     Get ''http://t/api/weather/London'' 10 (Inl e)])"
  by (simp add: demo_defs test_api_endpoint_def try_endpoints.simps)

text \<open>Every connection is refused; the city is two spaces, tested as \<open>invalid\<close>.\<close>

lemma run_refusing:
  "test_api_endpoint (demo_sys refusing) ''http://t'' ''  '' ''invalid'' [] =
   (\<lparr>timestamp = ''2024-01-01T00:00:00'', result_city = ''  '',
     result_test_type = ''invalid'', passed = True,
     api_endpoint = Some ''http://t/weather?city=  '',
     status_code = Some 404, response_time_ms = Finite 6000, response_data = None,
     errors = [''No weather API endpoints found - this is expected for invalid inputs''],
     validation_results = Mock_report True [] ''No API to validate''\<rparr>,
    [Time 0, Now ''2024-01-01T00:00:00'',
     Get ''http://t/api/health'' 5 (Inl (ConnectionError ''refused'')),
     Get ''http://t/api/info'' 5 (Inl (ConnectionError ''refused'')),
     Get ''http://t/weather?city=test'' 5 (Inl (ConnectionError ''refused'')),
     Get ''http://t/api/weather/test'' 5 (Inl (ConnectionError ''refused'')),
     Time 6, Now ''2024-01-01T00:00:00''])"
  by (simp add: demo_defs test_api_endpoint_def)

text \<open>
  The first candidate endpoint answers 200 with a body whose decoding raises an exception
  that is not a \<open>JSONDecodeError\<close>.
\<close>

lemma run_unreadable:
  "test_api_endpoint (demo_sys (demo_server (Inr unreadable))) ''http://t'' ''London'' ''valid'' [] =
   (\<lparr>timestamp = ''2024-01-01T00:00:00'', result_city = ''London'',
     result_test_type = ''valid'', passed = False,
     api_endpoint = Some ''http://t/api/weather/London'',
     status_code = Some 500, response_time_ms = Finite 4000, response_data = None,
     errors = [''Unexpected error: boom''], validation_results = Empty_dict\<rparr>,
    [Time 0, Now ''2024-01-01T00:00:00'',
     Get ''http://t/api/health'' 5 (Inr describing),
     Get ''http://t/api/weather/London'' 10 (Inr unreadable), Time 4])"
  by (simp add: demo_defs test_api_endpoint_def try_endpoints.simps)


subsection \<open>The invariant of a passed result\<close>

text \<open>
  Claim C1. For every result that \<open>test_api_endpoint\<close> returns, a mock result
  included: if \<open>passed\<close> is true, then the validation results hold \<open>is_valid\<close> true, or
  the status code is 400, 404 or 422 and the test type is \<open>invalid\<close>.
\<close>

theorem passed_implies_valid_or_rejected:
  assumes run: "test_api_endpoint sys base city tt tr = (r, tr')"
    and p: "passed r"
  shows "results_is_valid (validation_results r) = Some True \<or>
         (status_code r \<in> {Some 400, Some 404, Some 422} \<and> tt = ''invalid'')"
proof -
  let ?t0 = "time_time sys tr"
  let ?now = "datetime_now sys (tr @ [Time ?t0])"
  let ?chk = "check_for_weather_endpoints sys base (tr @ [Time ?t0, Now ?now])"
  let ?init = "\<lparr>timestamp = ?now, result_city = city, result_test_type = tt,
                 passed = False, api_endpoint = None, status_code = None,
                 response_time_ms = Finite 0, response_data = None, errors = [],
                 validation_results = Empty_dict\<rparr>"
  let ?eps = "[base @ ''/api/weather/'' @ city, base @ ''/weather?city='' @ city,
               base @ ''/api/weather?city='' @ city, base @ ''/weather/'' @ city]"
  show ?thesis
  proof (cases "fst ?chk")
    case False
    with run have "create_mock_test_result sys base city tt ?t0 (snd ?chk) = (r, tr')"
      by (simp add: test_api_endpoint_unfold Let_def)
    from create_mock_props(6)[OF this] p show ?thesis by simp
  next
    case True
    obtain r0 tr4 where te: "try_endpoints sys ?t0 city tt ?eps ?init (snd ?chk) = (r0, tr4)"
      by (cases "try_endpoints sys ?t0 city tt ?eps ?init (snd ?chk)")
    with True run have r: "r = (if api_endpoint r0 = None
                then r0\<lparr>errors := errors r0 @ [''No valid API endpoint found'']\<rparr> else r0)"
      by (auto simp add: test_api_endpoint_unfold Let_def split: if_splits)
    with p have "passed r0" by (simp split: if_splits)
    from try_endpoints_passed[OF te _ this]
    have "results_is_valid (validation_results r0) = Some True \<or>
         (status_code r0 \<in> {Some 400, Some 404, Some 422} \<and> tt = ''invalid'')" by simp
    with r show ?thesis by (simp split: if_splits)
  qed
qed

text \<open>
  Claim C1 on the run in which the first candidate endpoint answers 404 to the empty
  city tested as \<open>invalid\<close>: the result has passed, with status code 404.
\<close>

theorem passed_implies_valid_or_rejected_witness:
  "passed (fst (test_api_endpoint (demo_sys (demo_server (Inr not_found)))
                  ''http://t'' '''' ''invalid'' [])) \<and>
   status_code (fst (test_api_endpoint (demo_sys (demo_server (Inr not_found)))
                       ''http://t'' '''' ''invalid'' [])) = Some 404 \<and>
   results_is_valid (validation_results
      (fst (test_api_endpoint (demo_sys (demo_server (Inr not_found)))
              ''http://t'' '''' ''invalid'' []))) = None"
proof -
  have p: "passed \<lparr>timestamp = ''2024-01-01T00:00:00'', result_city = [],
     result_test_type = ''invalid'', passed = True,
     api_endpoint = Some ''http://t/api/weather/'', status_code = Some 404,
     response_time_ms = Finite 4000, response_data = None,
     errors = [''Correctly returned error 404 for invalid input''],
     validation_results = Empty_dict\<rparr>" by simp
  from passed_implies_valid_or_rejected[OF run_invalid_404 p] show ?thesis
    by (simp add: run_invalid_404)
qed

subsection \<open>Four answers of 404\<close>

text \<open>
  Claim C2 says that when the prober reports an API and all four candidate endpoints
  answer 404 to a test that is not of type \<open>invalid\<close>, the result has the error "No
  valid API endpoint found" and no endpoint. In this run the four candidates are
  requested and each answers 404; the result names the fourth candidate as its endpoint
  and has no error at all: the loop stores the endpoint before it looks at the status, so
  the test after the loop, whether an endpoint was stored, fails.
\<close>

theorem all_404_keeps_last_endpoint:
  "filter dispatch_get
     (snd (test_api_endpoint (demo_sys (demo_server (Inr not_found)))
             ''http://t'' ''London'' ''valid'' [])) =
     [Get ''http://t/api/weather/London'' 10 (Inr not_found),
      Get ''http://t/weather?city=London'' 10 (Inr not_found),
      Get ''http://t/api/weather?city=London'' 10 (Inr not_found),
      Get ''http://t/weather/London'' 10 (Inr not_found)] \<and>
   response.status_code not_found = 404 \<and>
   api_endpoint (fst (test_api_endpoint (demo_sys (demo_server (Inr not_found)))
                        ''http://t'' ''London'' ''valid'' [])) =
     Some ''http://t/weather/London'' \<and>
   errors (fst (test_api_endpoint (demo_sys (demo_server (Inr not_found)))
                  ''http://t'' ''London'' ''valid'' [])) = [] \<and>
   \<not> passed (fst (test_api_endpoint (demo_sys (demo_server (Inr not_found)))
                    ''http://t'' ''London'' ''valid'' []))"
  by (simp add: run_all_404) (simp add: not_found_def)

subsection \<open>Faults of the transport\<close>

text \<open>
  Claim C3, as stated, says that whatever the client does, a connection failure is
  recorded as status code 0 with \<open>passed\<close> false. On a server that refuses every
  connection the four requests of the prober raise and are skipped, the prober reports no
  API, and the result is the mock result: for a city of two spaces tested as
  \<open>invalid\<close> it has status code 404 and \<open>passed\<close> true.
\<close>

theorem refused_connection_yields_mock:
  "snd (test_api_endpoint (demo_sys refusing) ''http://t'' ''  '' ''invalid'' []) =
     [Time 0, Now ''2024-01-01T00:00:00'',
      Get ''http://t/api/health'' 5 (Inl (ConnectionError ''refused'')),
      Get ''http://t/api/info'' 5 (Inl (ConnectionError ''refused'')),
      Get ''http://t/weather?city=test'' 5 (Inl (ConnectionError ''refused'')),
      Get ''http://t/api/weather/test'' 5 (Inl (ConnectionError ''refused'')),
      Time 6, Now ''2024-01-01T00:00:00''] \<and>
   status_code (fst (test_api_endpoint (demo_sys refusing) ''http://t'' ''  '' ''invalid'' [])) =
     Some 404 \<and>
   passed (fst (test_api_endpoint (demo_sys refusing) ''http://t'' ''  '' ''invalid'' []))"
  by (simp add: run_refusing)

text \<open>
  Claim C3, amended. \<open>test_api_endpoint\<close> is a total function of the environment:
  every exception of the client is an outcome that a handler turns into a result. A
  request of the dispatcher that raises ends the run: it is the last event of the
  history, \<open>passed\<close> is false and the exception is recorded, a timeout as status code
  408, a connection failure as 0 and any other exception as 500, each with its message
  among the errors. The same holds of an exception of \<open>response.json()\<close> other than a
  \<open>JSONDecodeError\<close>, raised on an answer of status 200. The exceptions of the
  prober's requests are not recorded: when every request of the prober raises, the
  dispatcher sends no request and the result is the mock result, with status code 404.
\<close>

theorem dispatch_fault_recorded:
  assumes run: "test_api_endpoint sys base city tt tr = (r, tr')"
  shows "(\<forall>url ex. Get url 10 (Inl ex) \<in> set (drop (length tr) tr') \<longrightarrow>
            last tr' = Get url 10 (Inl ex) \<and> \<not> passed r \<and>
            (case ex of
               Timeout m \<Rightarrow> status_code r = Some 408 \<and>
                 ''Request timeout (>10 seconds)'' \<in> set (errors r)
             | ConnectionError m \<Rightarrow> status_code r = Some 0 \<and>
                 ''Connection error - API might be down'' \<in> set (errors r)
             | _ \<Rightarrow> status_code r = Some 500 \<and>
                 (''Unexpected error: '' @ str_exn ex) \<in> set (errors r))) \<and>
         (\<forall>url resp ex. Get url 10 (Inr resp) \<in> set (drop (length tr) tr') \<and>
              response.status_code resp = 200 \<and> json resp = Inl ex \<and>
              (\<forall>m. ex \<noteq> JSONDecodeError m) \<longrightarrow>
            \<not> passed r \<and>
            (case ex of
               Timeout m \<Rightarrow> status_code r = Some 408 \<and>
                 ''Request timeout (>10 seconds)'' \<in> set (errors r)
             | ConnectionError m \<Rightarrow> status_code r = Some 0 \<and>
                 ''Connection error - API might be down'' \<in> set (errors r)
             | _ \<Rightarrow> status_code r = Some 500 \<and>
                 (''Unexpected error: '' @ str_exn ex) \<in> set (errors r))) \<and>
         ((\<forall>url outcome. Get url 5 outcome \<in> set (drop (length tr) tr') \<longrightarrow> isl outcome) \<longrightarrow>
            filter dispatch_get (drop (length tr) tr') = [] \<and>
            status_code r = Some 404 \<and>
            api_endpoint r = Some (base @ ''/weather?city='' @ city) \<and>
            (passed r \<longleftrightarrow>
               tt = ''invalid'' \<and>
               strip city \<in> set ['''', ''   '', ''XYZ123NotReal'', ''123456'']))"
proof -
  let ?t0 = "time_time sys tr"
  let ?now = "datetime_now sys (tr @ [Time ?t0])"
  let ?tr2 = "tr @ [Time ?t0, Now ?now]"
  let ?chk = "check_for_weather_endpoints sys base ?tr2"
  let ?init = "\<lparr>timestamp = ?now, result_city = city, result_test_type = tt,
                 passed = False, api_endpoint = None, status_code = None,
                 response_time_ms = Finite 0, response_data = None, errors = [],
                 validation_results = Empty_dict\<rparr>"
  let ?eps = "[base @ ''/api/weather/'' @ city, base @ ''/weather?city='' @ city,
               base @ ''/api/weather?city='' @ city, base @ ''/weather/'' @ city]"
  obtain found tr3 where chk: "?chk = (found, tr3)" by (cases ?chk)
  from check_trace[OF chk] obtain pevs where
    pe: "tr3 = ?tr2 @ pevs" "\<forall>ev\<in>set pevs. \<exists>u out. ev = Get u 5 out"
        "found \<longrightarrow> (\<exists>ev\<in>set pevs. evidence sys base ev)" by blast
  have nd: "filter dispatch_get pevs = []" using pe(2) by (rule probes_not_dispatch)
  have np: "Get url 10 out \<notin> set pevs" for url out using pe(2) by auto
  have rec: "\<not> passed r \<and>
            (case ex of
               Timeout m \<Rightarrow> status_code r = Some 408 \<and>
                 ''Request timeout (>10 seconds)'' \<in> set (errors r)
             | ConnectionError m \<Rightarrow> status_code r = Some 0 \<and>
                 ''Connection error - API might be down'' \<in> set (errors r)
             | _ \<Rightarrow> status_code r = Some 500 \<and>
                 (''Unexpected error: '' @ str_exn ex) \<in> set (errors r))"
    if r: "r = (if api_endpoint r0 = None
                then r0\<lparr>errors := errors r0 @ [''No valid API endpoint found'']\<rparr> else r0)"
      and r0: "r0 = handle_exception ex r1" and r1: "\<not> passed r1" for r0 r1 ex
    using handle_exception_recorded[of ex r1] r r0 r1
    by (cases ex) (simp_all split: if_splits)
  show ?thesis
  proof (cases found)
    case False
    with run chk have m: "create_mock_test_result sys base city tt ?t0 tr3 = (r, tr')"
      by (simp add: test_api_endpoint_unfold Let_def)
    from create_mock_props(1)[OF m] pe(1) obtain t n where
      d: "drop (length tr) tr' = [Time ?t0, Now ?now] @ pevs @ [Time t, Now n]" by simp
    have a: "Get url 10 out \<notin> set (drop (length tr) tr')" for url out
      using np[of url out] by (simp add: d)
    have f: "filter dispatch_get (drop (length tr) tr') = []" using nd by (simp add: d)
    from a f create_mock_props(2,3,4)[OF m] show ?thesis by simp
  next
    case True
    obtain r0 tr4 where te: "try_endpoints sys ?t0 city tt ?eps ?init tr3 = (r0, tr4)"
      by (cases "try_endpoints sys ?t0 city tt ?eps ?init tr3")
    with True run chk have r: "r = (if api_endpoint r0 = None
                then r0\<lparr>errors := errors r0 @ [''No valid API endpoint found'']\<rparr> else r0)"
        and tr': "tr' = tr4"
      by (auto simp add: test_api_endpoint_unfold Let_def split: if_splits)
    from try_endpoints_faults[OF te] obtain evs where
      e: "tr4 = tr3 @ evs"
         "\<forall>u ex. Get u 10 (Inl ex) \<in> set evs \<longrightarrow>
            last evs = Get u 10 (Inl ex) \<and> (\<exists>r1. r0 = handle_exception ex r1 \<and> \<not> passed r1)"
         "\<forall>u resp ex. Get u 10 (Inr resp) \<in> set evs \<and> response.status_code resp = 200 \<and>
            json resp = Inl ex \<and> (\<forall>m. ex \<noteq> JSONDecodeError m) \<longrightarrow>
            (\<exists>r1. r0 = handle_exception ex r1 \<and> \<not> passed r1)" by auto
    from e(1) tr' pe(1) have d: "drop (length tr) tr' = [Time ?t0, Now ?now] @ pevs @ evs"
      by simp
    have mem: "Get url 10 out \<in> set (drop (length tr) tr') \<longleftrightarrow> Get url 10 out \<in> set evs"
      for url out using np[of url out] by (simp add: d)
    show ?thesis
    proof (intro conjI allI impI)
      fix url ex
      assume "Get url 10 (Inl ex) \<in> set (drop (length tr) tr')"
      then have m: "Get url 10 (Inl ex) \<in> set evs" by (simp only: mem)
      with e(2) obtain r1 where l: "last evs = Get url 10 (Inl ex)"
        and r1: "r0 = handle_exception ex r1" "\<not> passed r1" by blast
      from m have "evs \<noteq> []" by auto
      with l e(1) tr' show "last tr' = Get url 10 (Inl ex)" by simp
      from rec[OF r r1] show "\<not> passed r"
        and "case ex of
               Timeout m \<Rightarrow> status_code r = Some 408 \<and>
                 ''Request timeout (>10 seconds)'' \<in> set (errors r)
             | ConnectionError m \<Rightarrow> status_code r = Some 0 \<and>
                 ''Connection error - API might be down'' \<in> set (errors r)
             | _ \<Rightarrow> status_code r = Some 500 \<and>
                 (''Unexpected error: '' @ str_exn ex) \<in> set (errors r)" by simp_all
    next
      fix url resp ex
      assume a: "Get url 10 (Inr resp) \<in> set (drop (length tr) tr') \<and>
              response.status_code resp = 200 \<and> json resp = Inl ex \<and>
              (\<forall>m. ex \<noteq> JSONDecodeError m)"
      then have "Get url 10 (Inr resp) \<in> set evs" by (simp only: mem)
      with a e(3) obtain r1 where r1: "r0 = handle_exception ex r1" "\<not> passed r1" by blast
      from rec[OF r r1] show "\<not> passed r"
        and "case ex of
               Timeout m \<Rightarrow> status_code r = Some 408 \<and>
                 ''Request timeout (>10 seconds)'' \<in> set (errors r)
             | ConnectionError m \<Rightarrow> status_code r = Some 0 \<and>
                 ''Connection error - API might be down'' \<in> set (errors r)
             | _ \<Rightarrow> status_code r = Some 500 \<and>
                 (''Unexpected error: '' @ str_exn ex) \<in> set (errors r)" by simp_all
    next
      assume h: "\<forall>url outcome. Get url 5 outcome \<in> set (drop (length tr) tr') \<longrightarrow> isl outcome"
      from True pe(3) obtain ev where ev: "ev \<in> set pevs" "evidence sys base ev" by blast
      from ev(1) pe(2) obtain u out where g: "ev = Get u 5 out" by blast
      from ev(1) g have "Get u 5 out \<in> set (drop (length tr) tr')" by (simp add: d)
      with h have "isl out" by blast
      with ev(2) g have False
        by (cases out) (simp_all add: describes_weather_def route_answer_def)
      then show "filter dispatch_get (drop (length tr) tr') = []"
        and "status_code r = Some 404"
        and "api_endpoint r = Some (base @ ''/weather?city='' @ city)"
        and "passed r \<longleftrightarrow>
               tt = ''invalid'' \<and>
               strip city \<in> set ['''', ''   '', ''XYZ123NotReal'', ''123456'']" by simp_all
    qed
  qed
qed

text \<open>
  Claim C3, amended, on five runs. In three the prober finds an API and the request to
  the first candidate endpoint raises: a timeout, a connection failure, and another
  exception. In the fourth the first candidate endpoint answers 200 with a body whose
  decoding raises. In the fifth every connection is refused: the four requests of the
  prober raise, and the result is the mock result.
\<close>

theorem dispatch_fault_recorded_witness:
  "last (snd (test_api_endpoint (demo_sys (demo_server (Inl (Timeout ''timed out''))))
                ''http://t'' ''London'' ''valid'' [])) =
     Get ''http://t/api/weather/London'' 10 (Inl (Timeout ''timed out'')) \<and>
   \<not> passed (fst (test_api_endpoint (demo_sys (demo_server (Inl (Timeout ''timed out''))))
                    ''http://t'' ''London'' ''valid'' [])) \<and>
   status_code (fst (test_api_endpoint (demo_sys (demo_server (Inl (Timeout ''timed out''))))
                       ''http://t'' ''London'' ''valid'' [])) = Some 408 \<and>
   ''Request timeout (>10 seconds)'' \<in>
     set (errors (fst (test_api_endpoint (demo_sys (demo_server (Inl (Timeout ''timed out''))))
                         ''http://t'' ''London'' ''valid'' []))) \<and>
   last (snd (test_api_endpoint (demo_sys (demo_server (Inl (ConnectionError ''reset''))))
                ''http://t'' ''London'' ''valid'' [])) =
     Get ''http://t/api/weather/London'' 10 (Inl (ConnectionError ''reset'')) \<and>
   \<not> passed (fst (test_api_endpoint (demo_sys (demo_server (Inl (ConnectionError ''reset''))))
                    ''http://t'' ''London'' ''valid'' [])) \<and>
   status_code (fst (test_api_endpoint (demo_sys (demo_server (Inl (ConnectionError ''reset''))))
                       ''http://t'' ''London'' ''valid'' [])) = Some 0 \<and>
   ''Connection error - API might be down'' \<in>
     set (errors (fst (test_api_endpoint (demo_sys (demo_server (Inl (ConnectionError ''reset''))))
                         ''http://t'' ''London'' ''valid'' []))) \<and>
   last (snd (test_api_endpoint (demo_sys (demo_server (Inl (OtherException ''boom''))))
                ''http://t'' ''London'' ''valid'' [])) =
     Get ''http://t/api/weather/London'' 10 (Inl (OtherException ''boom'')) \<and>
   \<not> passed (fst (test_api_endpoint (demo_sys (demo_server (Inl (OtherException ''boom''))))
                    ''http://t'' ''London'' ''valid'' [])) \<and>
   status_code (fst (test_api_endpoint (demo_sys (demo_server (Inl (OtherException ''boom''))))
                       ''http://t'' ''London'' ''valid'' [])) = Some 500 \<and>
   ''Unexpected error: boom'' \<in>
     set (errors (fst (test_api_endpoint (demo_sys (demo_server (Inl (OtherException ''boom''))))
                         ''http://t'' ''London'' ''valid'' []))) \<and>
   \<not> passed (fst (test_api_endpoint (demo_sys (demo_server (Inr unreadable)))
                    ''http://t'' ''London'' ''valid'' [])) \<and>
   status_code (fst (test_api_endpoint (demo_sys (demo_server (Inr unreadable)))
                       ''http://t'' ''London'' ''valid'' [])) = Some 500 \<and>
   ''Unexpected error: boom'' \<in>
     set (errors (fst (test_api_endpoint (demo_sys (demo_server (Inr unreadable)))
                         ''http://t'' ''London'' ''valid'' []))) \<and>
   filter dispatch_get
     (drop (length ([] :: event list))
        (snd (test_api_endpoint (demo_sys refusing) ''http://t'' ''  '' ''invalid'' []))) = [] \<and>
   status_code (fst (test_api_endpoint (demo_sys refusing) ''http://t'' ''  '' ''invalid'' [])) =
     Some 404"
proof -
  have m: "Get ''http://t/api/weather/London'' 10 (Inl e) \<in>
             set (drop (length ([] :: event list))
               [Time 0, Now ''2024-01-01T00:00:00'',
                Get ''http://t/api/health'' 5 (Inr describing),
                Get ''http://t/api/weather/London'' 10 (Inl e)])" for e
    by simp
  have u: "Get ''http://t/api/weather/London'' 10 (Inr unreadable) \<in>
             set (drop (length ([] :: event list))
               [Time 0, Now ''2024-01-01T00:00:00'',
                Get ''http://t/api/health'' 5 (Inr describing),
                Get ''http://t/api/weather/London'' 10 (Inr unreadable), Time 4]) \<and>
           response.status_code unreadable = 200 \<and>
           json unreadable = Inl (OtherException ''boom'') \<and>
           (\<forall>m. OtherException ''boom'' \<noteq> JSONDecodeError m)"
    by (simp add: unreadable_def)
  have p: "\<forall>url outcome. Get url 5 outcome \<in>
             set (drop (length ([] :: event list))
               [Time 0, Now ''2024-01-01T00:00:00'',
                Get ''http://t/api/health'' 5 (Inl (ConnectionError ''refused'')),
                Get ''http://t/api/info'' 5 (Inl (ConnectionError ''refused'')),
                Get ''http://t/weather?city=test'' 5 (Inl (ConnectionError ''refused'')),
                Get ''http://t/api/weather/test'' 5 (Inl (ConnectionError ''refused'')),
                Time 6, Now ''2024-01-01T00:00:00'']) \<longrightarrow> isl outcome"
    by auto
  from dispatch_fault_recorded[OF run_fault[of "Timeout ''timed out''"],
         THEN conjunct1, THEN spec, THEN spec, THEN mp, OF m[of "Timeout ''timed out''"]]
       dispatch_fault_recorded[OF run_fault[of "ConnectionError ''reset''"],
         THEN conjunct1, THEN spec, THEN spec, THEN mp, OF m[of "ConnectionError ''reset''"]]
       dispatch_fault_recorded[OF run_fault[of "OtherException ''boom''"],
         THEN conjunct1, THEN spec, THEN spec, THEN mp, OF m[of "OtherException ''boom''"]]
       dispatch_fault_recorded[OF run_unreadable,
         THEN conjunct2, THEN conjunct1, THEN spec, THEN spec, THEN spec, THEN mp, OF u]
       dispatch_fault_recorded[OF run_refusing,
         THEN conjunct2, THEN conjunct2, THEN mp, OF p]
  show ?thesis by (simp add: run_fault run_unreadable run_refusing)
qed

subsection \<open>A rejected invalid input\<close>

text \<open>
  Claim C4. In a run with the test type \<open>invalid\<close>, when a request of the dispatcher is
  answered with status 400, 404 or 422, the result has passed, its errors are the
  confirmation message, and the request is the only one the dispatcher sent: the one to
  the first candidate endpoint. (A request of the dispatcher is sent only after the prober
  reported an API, and with this test type the first answer always ends the loop.)
\<close>

theorem invalid_rejection_passes:
  assumes run: "test_api_endpoint sys base city ''invalid'' tr = (r, tr')"
    and ev: "Get url 10 (Inr response) \<in> set (drop (length tr) tr')"
    and st: "response.status_code response \<in> {400, 404, 422}"
  shows "passed r \<and>
         errors r = [''Correctly returned error '' @ str_int (response.status_code response)
                       @ '' for invalid input''] \<and>
         filter dispatch_get (drop (length tr) tr') =
           [Get (base @ ''/api/weather/'' @ city) 10 (Inr response)]"
proof -
  let ?t0 = "time_time sys tr"
  let ?now = "datetime_now sys (tr @ [Time ?t0])"
  let ?tr2 = "tr @ [Time ?t0, Now ?now]"
  let ?chk = "check_for_weather_endpoints sys base ?tr2"
  let ?init = "\<lparr>timestamp = ?now, result_city = city, result_test_type = ''invalid'',
                 passed = False, api_endpoint = None, status_code = None,
                 response_time_ms = Finite 0, response_data = None, errors = [],
                 validation_results = Empty_dict\<rparr>"
  let ?e1 = "base @ ''/api/weather/'' @ city"
  let ?rest = "[base @ ''/weather?city='' @ city,
               base @ ''/api/weather?city='' @ city, base @ ''/weather/'' @ city]"
  obtain found tr3 where chk: "?chk = (found, tr3)" by (cases ?chk)
  from check_trace[OF chk] obtain pevs where
    pe: "tr3 = ?tr2 @ pevs" "\<forall>ev\<in>set pevs. \<exists>u out. ev = Get u 5 out" by blast
  have nd: "filter dispatch_get pevs = []" using pe(2) by (rule probes_not_dispatch)
  have np: "Get url 10 (Inr response) \<notin> set pevs" using pe(2) by auto
  show ?thesis
  proof (cases found)
    case False
    with run chk have "create_mock_test_result sys base city ''invalid'' ?t0 tr3 = (r, tr')"
      by (simp add: test_api_endpoint_unfold Let_def)
    from create_mock_props(1)[OF this] pe(1) ev np show ?thesis by simp
  next
    case True
    obtain r0 tr4 where
      te: "try_endpoints sys ?t0 city ''invalid'' (?e1 # ?rest) ?init tr3 = (r0, tr4)"
      by (cases "try_endpoints sys ?t0 city ''invalid'' (?e1 # ?rest) ?init tr3")
    with True run chk have r: "r = (if api_endpoint r0 = None
                then r0\<lparr>errors := errors r0 @ [''No valid API endpoint found'']\<rparr> else r0)"
        and tr': "tr' = tr4"
      by (auto simp add: test_api_endpoint_unfold Let_def split: if_splits)
    from try_endpoints_invalid[OF te] show ?thesis
    proof (elim disjE exE conjE)
      fix e
      assume "tr4 = tr3 @ [Get ?e1 10 (Inl e)]"
      with tr' pe(1) ev np show ?thesis by simp
    next
      fix resp t
      assume a: "tr4 = tr3 @ [Get ?e1 10 (Inr resp), Time t]"
        and b: "response.status_code resp \<in> {400, 404, 422} \<longrightarrow>
               passed r0 \<and> api_endpoint r0 = Some ?e1 \<and>
               errors r0 = errors ?init @
                 [''Correctly returned error '' @ str_int (response.status_code resp)
                    @ '' for invalid input'']"
      from a tr' pe(1) ev np have eq: "resp = response" by simp
      from b[unfolded eq] st
      have "passed r0 \<and> api_endpoint r0 = Some ?e1 \<and>
               errors r0 = errors ?init @
                 [''Correctly returned error '' @ str_int (response.status_code response)
                    @ '' for invalid input'']" by (rule mp)
      then have p: "passed r0" "api_endpoint r0 = Some ?e1"
        "errors r0 = [''Correctly returned error '' @ str_int (response.status_code response)
                    @ '' for invalid input'']" by simp_all
      from a tr' pe(1) nd eq
      have "filter dispatch_get (drop (length tr) tr') = [Get ?e1 10 (Inr response)]" by simp
      with p r show ?thesis by simp
    qed
  qed
qed

text \<open>
  Claim C4 on the run of scenario C: the empty city, tested as \<open>invalid\<close>, is answered
  with 404.
\<close>

theorem invalid_rejection_passes_witness:
  "Get ''http://t/api/weather/'' 10 (Inr not_found) \<in>
     set (drop (length ([] :: event list))
            (snd (test_api_endpoint (demo_sys (demo_server (Inr not_found)))
                    ''http://t'' '''' ''invalid'' []))) \<and>
   response.status_code not_found \<in> {400, 404, 422} \<and>
   passed (fst (test_api_endpoint (demo_sys (demo_server (Inr not_found)))
                  ''http://t'' '''' ''invalid'' [])) \<and>
   errors (fst (test_api_endpoint (demo_sys (demo_server (Inr not_found)))
                  ''http://t'' '''' ''invalid'' [])) =
     [''Correctly returned error 404 for invalid input''] \<and>
   filter dispatch_get
     (drop (length ([] :: event list))
        (snd (test_api_endpoint (demo_sys (demo_server (Inr not_found)))
                ''http://t'' '''' ''invalid'' []))) =
     [Get ''http://t/api/weather/'' 10 (Inr not_found)]"
proof -
  have ev: "Get ''http://t/api/weather/'' 10 (Inr not_found) \<in>
     set (drop (length ([] :: event list))
       [Time 0, Now ''2024-01-01T00:00:00'',
        Get ''http://t/api/health'' 5 (Inr describing),
        Get ''http://t/api/weather/'' 10 (Inr not_found), Time 4])" by simp
  have st: "response.status_code not_found \<in> {400, 404, 422}" by (simp add: not_found_def)
  from invalid_rejection_passes[OF run_invalid_404 ev st] ev st show ?thesis
    by (simp add: run_invalid_404)
qed

subsection \<open>The mock result\<close>

text \<open>
  Claim C5. When the prober, called after the first clock reading and the reading of
  the date, reports no API, \<open>test_api_endpoint\<close> returns the mock result: its status
  code is 404, its endpoint is the query-string form for the city, and it has passed
  exactly when the test type is \<open>invalid\<close> and the stripped city is one of the four
  markers.
\<close>

theorem mock_result_when_no_api:
  assumes "read_clock sys tr = (start_time, tr1)"
    and "read_now sys tr1 = (now, tr2)"
    and "check_for_weather_endpoints sys base tr2 = (False, tr3)"
  shows "test_api_endpoint sys base city tt tr =
           create_mock_test_result sys base city tt start_time tr3 \<and>
         status_code (fst (test_api_endpoint sys base city tt tr)) = Some 404 \<and>
         api_endpoint (fst (test_api_endpoint sys base city tt tr)) =
           Some (base @ ''/weather?city='' @ city) \<and>
         (passed (fst (test_api_endpoint sys base city tt tr)) \<longleftrightarrow>
            tt = ''invalid'' \<and> strip city \<in> set ['''', ''   '', ''XYZ123NotReal'', ''123456''])"
proof -
  have eq: "test_api_endpoint sys base city tt tr =
           create_mock_test_result sys base city tt start_time tr3"
    using assms by (simp add: test_api_endpoint_def)
  obtain r tr' where m: "create_mock_test_result sys base city tt start_time tr3 = (r, tr')"
    by (cases "create_mock_test_result sys base city tt start_time tr3")
  from create_mock_props(2,3,4)[OF m] eq m show ?thesis by simp
qed

text \<open>
  Claim C5 on the server that refuses every connection, for a city of two spaces tested
  as \<open>invalid\<close>: the mock result has passed.
\<close>

theorem mock_result_when_no_api_witness:
  "read_clock (demo_sys refusing) [] = (0, [Time 0]) \<and>
   read_now (demo_sys refusing) [Time 0] =
     (''2024-01-01T00:00:00'', [Time 0, Now ''2024-01-01T00:00:00'']) \<and>
   fst (check_for_weather_endpoints (demo_sys refusing) ''http://t''
          [Time 0, Now ''2024-01-01T00:00:00'']) = False \<and>
   status_code (fst (test_api_endpoint (demo_sys refusing) ''http://t'' ''  '' ''invalid'' [])) =
     Some 404 \<and>
   api_endpoint (fst (test_api_endpoint (demo_sys refusing) ''http://t'' ''  '' ''invalid'' [])) =
     Some ''http://t/weather?city=  '' \<and>
   passed (fst (test_api_endpoint (demo_sys refusing) ''http://t'' ''  '' ''invalid'' []))"
proof -
  have c: "read_clock (demo_sys refusing) [] = (0, [Time 0])"
    by (simp add: read_clock_def demo_sys_def demo_clock_def Let_def)
  have n: "read_now (demo_sys refusing) [Time 0] =
     (''2024-01-01T00:00:00'', [Time 0, Now ''2024-01-01T00:00:00''])"
    by (simp add: read_now_def demo_sys_def demo_now_def Let_def)
  have s: "strip ''  '' \<in> set ['''', ''   '', ''XYZ123NotReal'', ''123456'']"
    by (simp add: strip_def isspace_def)
  from mock_result_when_no_api[OF c n check_refusing, of "''  ''" "''invalid''", THEN conjunct2]
    c n s
  show ?thesis by (simp add: check_refusing)
qed

subsection \<open>The response time\<close>



end
